theory Spec2Isabelle
  imports Main
begin

section \<open>Promises, latches and mutation handles\<close>

text \<open>
  The TypeScript sources coordinate two stores through promises. A promise is modelled by
  its settlement state. An error value is the text of the error.
\<close>

type_synonym err = string

datatype 'a promise = Pending | Resolved 'a | Rejected err

text \<open>
  Modelled from the spec: the class \<open>Latch\<close> (\<open>util/Latch\<close>) is not among the sources.
  The spec (section 4.1) describes it as a single-resolution future: \<open>resolve\<close> and
  \<open>reject\<close> settle an unsettled latch, a later call never changes the settled value, and
  \<open>get()\<close> hands the same outcome to every waiter. The \<open>resolve\<close> and \<open>reject\<close>
  functions of \<open>new Promise\<close> behave in the same way.
\<close>

definition latch_resolve :: "'a \<Rightarrow> 'a promise \<Rightarrow> 'a promise" where
  "latch_resolve v l = (case l of Pending \<Rightarrow> Resolved v | Resolved w \<Rightarrow> Resolved w | Rejected e \<Rightarrow> Rejected e)"

definition latch_reject :: "err \<Rightarrow> 'a promise \<Rightarrow> 'a promise" where
  "latch_reject e l = (case l of Pending \<Rightarrow> Rejected e | Resolved w \<Rightarrow> Resolved w | Rejected d \<Rightarrow> Rejected d)"

text \<open>A settlement attempt: \<open>Inl e\<close> rejects with \<open>e\<close>, \<open>Inr v\<close> resolves with \<open>v\<close>.\<close>

definition settle :: "err + 'a \<Rightarrow> 'a promise \<Rightarrow> 'a promise" where
  "settle r l = (case r of Inl e \<Rightarrow> latch_reject e l | Inr v \<Rightarrow> latch_resolve v l)"

text \<open>
  Modelled from the spec: \<open>DatastoreMutation\<close> and \<open>DefaultDatastoreMutation\<close> are not
  among the sources; the spec (section 3) gives the handle as the pair of latches
  \<open>written\<close> and \<open>committed\<close>, both unsettled when the handle is created.
\<close>

record 'a DatastoreMutation =
  written :: "'a promise"
  committed :: "'a promise"

definition DefaultDatastoreMutation :: "'a DatastoreMutation" where
  "DefaultDatastoreMutation = \<lparr>written = Pending, committed = Pending\<rparr>"

datatype DatastoreConsistency = Written | Committed

section \<open>DatastoreMutations\<close>

text \<open>
  \<open>Promise.all([promise0, promise1])\<close> as a function of the two states: it rejects as soon
  as one of them has rejected and resolves with both values once both have resolved.
\<close>

fun Promise_all :: "'a promise \<Rightarrow> 'a promise \<Rightarrow> ('a \<times> 'a) promise" where
  "Promise_all (Rejected e) p1 = Rejected e"
| "Promise_all p0 (Rejected e) = Rejected e"
| "Promise_all (Resolved a) (Resolved b) = Resolved (a, b)"
| "Promise_all p0 p1 = Pending"

text \<open>
  \<open>batchPromises\<close>: the callbacks on the batch settle the target latch, with
  \<open>result[0]\<close> when the batch resolves. The function gives the target latch after the
  callbacks that are due have run; it is applied after every settlement of a source
  latch, so the target keeps the outcome of the first settlement of the batch.
\<close>

definition batchPromises :: "'a promise \<Rightarrow> 'a promise \<Rightarrow> 'a promise \<Rightarrow> 'a promise" where
  "batchPromises promise0 promise1 latch =
     (case Promise_all promise0 promise1 of
        Pending \<Rightarrow> latch
      | Resolved result \<Rightarrow> latch_resolve (fst result) latch
      | Rejected e \<Rightarrow> latch_reject e latch)"

definition batched ::
  "DatastoreConsistency \<Rightarrow> 'a DatastoreMutation \<Rightarrow> 'a DatastoreMutation \<Rightarrow> 'a DatastoreMutation
     \<Rightarrow> 'a DatastoreMutation" where
  "batched consistency dm0 dm1 target =
     (let target1 = target\<lparr>written := batchPromises (written dm0) (written dm1) (written target)\<rparr>
      in if consistency = Committed
         then target1\<lparr>committed := batchPromises (committed dm0) (committed dm1) (committed target1)\<rparr>
         else target1)"

subsection \<open>executeBatchedWrite\<close>

text \<open>
  One execution of \<open>executeBatchedWrite\<close>. The fields are the objects the body creates or
  is given: the two coordinators (the default arguments, fresh handles), the caller's
  handle \<open>datastoreMutation\<close>, the promise that \<open>remoteSync(remoteCoordinator)\<close> returned,
  the promise that \<open>localSync(localCoordinator)\<close> returned (\<open>None\<close> as long as
  \<open>localSync\<close> has not been called) and the promise that \<open>executeBatchedWrite\<close> itself
  returns.
\<close>

record 'a batched_write =
  remoteCoordinator :: "'a DatastoreMutation"
  localCoordinator :: "'a DatastoreMutation"
  datastoreMutation :: "'a DatastoreMutation"
  remoteSync :: "unit promise"
  localSync :: "unit promise option"
  returned :: "unit promise"

text \<open>
  The state after the synchronous body has run: \<open>remoteSync\<close> has been called, every
  callback is registered, nothing has settled. The caller's handle is passed in unsettled
  and is settled by this code only.
\<close>

definition executeBatchedWrite :: "'a batched_write" where
  "executeBatchedWrite =
     \<lparr>remoteCoordinator = DefaultDatastoreMutation,
      localCoordinator = DefaultDatastoreMutation,
      datastoreMutation = DefaultDatastoreMutation,
      remoteSync = Pending,
      localSync = None,
      returned = Pending\<rparr>"

text \<open>
  What the two stores can do to an execution: settle the promise of their operation, or
  settle a latch of the coordinator they were given.
\<close>

datatype leg = Remote | Local

datatype 'a store_event =
    SyncSettles leg "err + unit"
  | WrittenSettles leg "err + 'a"
  | CommittedSettles leg "err + 'a"

definition reject :: "err \<Rightarrow> 'a batched_write \<Rightarrow> 'a batched_write" where
  "reject e s = s\<lparr>returned := latch_reject e (returned s)\<rparr>"

definition resolve :: "'a batched_write \<Rightarrow> 'a batched_write" where
  "resolve s = s\<lparr>returned := latch_resolve () (returned s)\<rparr>"

text \<open>
  The callbacks that follow a settlement of a coordinator latch: \<open>this.batched\<close> merges
  into the caller's handle, and under the committed policy (and only there) the callbacks
  on \<open>datastoreMutation.committed.get()\<close> settle the returned promise.
\<close>

definition merge_and_return :: "DatastoreConsistency \<Rightarrow> 'a batched_write \<Rightarrow> 'a batched_write" where
  "merge_and_return consistency s =
     (let s1 = s\<lparr>datastoreMutation :=
                   batched consistency (remoteCoordinator s) (localCoordinator s) (datastoreMutation s)\<rparr>
      in if consistency = Committed
         then (case committed (datastoreMutation s1) of
                 Pending \<Rightarrow> s1
               | Resolved v \<Rightarrow> resolve s1
               | Rejected e \<Rightarrow> reject e s1)
         else s1)"

text \<open>
  One settlement by a store, followed by the callbacks of \<open>executeBatchedWrite\<close> that it
  makes due; they are taken to run before the next settlement. A settlement of something
  already settled changes nothing, and the local coordinator is out of reach of the local
  store until \<open>localSync\<close> has been called with it.
\<close>

fun step :: "DatastoreConsistency \<Rightarrow> 'a batched_write \<Rightarrow> 'a store_event \<Rightarrow> 'a batched_write" where
  "step c s (SyncSettles Remote r) =
     (if remoteSync s = Pending
      then let s1 = s\<lparr>remoteSync := settle r Pending\<rparr>
           in (case r of Inl e \<Rightarrow> reject e s1 | Inr u \<Rightarrow> s1)
      else s)"
| "step c s (SyncSettles Local r) =
     (if localSync s = Some Pending
      then let s1 = s\<lparr>localSync := Some (settle r Pending)\<rparr>
           in (case r of Inl e \<Rightarrow> reject e s1 | Inr u \<Rightarrow> s1)
      else s)"
| "step c s (WrittenSettles Remote r) =
     (if written (remoteCoordinator s) = Pending
      then let s1 = s\<lparr>remoteCoordinator := (remoteCoordinator s)\<lparr>written := settle r Pending\<rparr>\<rparr>;
               s2 = (case r of Inl e \<Rightarrow> reject e s1 | Inr v \<Rightarrow> s1\<lparr>localSync := Some Pending\<rparr>)
           in merge_and_return c s2
      else s)"
| "step c s (WrittenSettles Local r) =
     (case localSync s of
        None \<Rightarrow> s
      | Some p \<Rightarrow>
          if written (localCoordinator s) = Pending
          then merge_and_return c
                 (s\<lparr>localCoordinator := (localCoordinator s)\<lparr>written := settle r Pending\<rparr>\<rparr>)
          else s)"
| "step c s (CommittedSettles Remote r) =
     (if committed (remoteCoordinator s) = Pending
      then merge_and_return c
             (s\<lparr>remoteCoordinator := (remoteCoordinator s)\<lparr>committed := settle r Pending\<rparr>\<rparr>)
      else s)"
| "step c s (CommittedSettles Local r) =
     (case localSync s of
        None \<Rightarrow> s
      | Some p \<Rightarrow>
          if committed (localCoordinator s) = Pending
          then merge_and_return c
                 (s\<lparr>localCoordinator := (localCoordinator s)\<lparr>committed := settle r Pending\<rparr>\<rparr>)
          else s)"

definition run :: "DatastoreConsistency \<Rightarrow> 'a store_event list \<Rightarrow> 'a batched_write" where
  "run c evs = foldl (step c) executeBatchedWrite evs"


text \<open>Whether a settlement by a store is the resolution of the remote leg's written latch.\<close>

fun resolves_remote_written :: "'a store_event \<Rightarrow> bool" where
  "resolves_remote_written (WrittenSettles Remote (Inr v)) = True"
| "resolves_remote_written ev = False"

section \<open>CloudAwareDatastore: write and delete\<close>

text \<open>
  Modelled from the spec: \<open>DocMetaComparisonIndex\<close> is not among the sources. The spec
  (sections 2 and 3) gives it as an index from fingerprint to the last known marker of the
  document; \<open>remove\<close> takes the entry of a fingerprint out of it.
\<close>

type_synonym DocMetaComparisonIndex = "string \<rightharpoonup> nat"

definition DocMetaComparisonIndex_remove ::
  "string \<Rightarrow> DocMetaComparisonIndex \<Rightarrow> err + DocMetaComparisonIndex" where
  "DocMetaComparisonIndex_remove fingerprint index = Inr (index(fingerprint := None))"

datatype log_entry = LogError string err

text \<open>
  A call of \<open>write\<close> or \<open>delete\<close>: the execution of \<open>executeBatchedWrite\<close> it starts,
  the comparison index of the datastore and what has been logged.
\<close>

record mutation_call =
  execution :: "bool batched_write"
  docMetaComparisonIndex :: DocMetaComparisonIndex
  logged :: "log_entry list"

text \<open>
  Both methods first register, on the written latch of the caller's handle, a callback
  that updates the comparison index, followed by \<open>.catch(err => log.error("Could not
  handle delete: ", err))\<close>, which logs a rejection of the latch as well as an error
  thrown by the callback. \<open>before\<close> is the latch before the settlement at hand, so that
  the callbacks run once. The index operation is the body of the callback: \<open>Inl e\<close> when
  it throws \<open>e\<close>.
\<close>

definition on_written ::
  "(DocMetaComparisonIndex \<Rightarrow> err + DocMetaComparisonIndex) \<Rightarrow> bool promise \<Rightarrow> mutation_call
     \<Rightarrow> mutation_call" where
  "on_written callback before s =
     (if before = Pending
      then (case written (datastoreMutation (execution s)) of
              Pending \<Rightarrow> s
            | Resolved v \<Rightarrow>
                (case callback (docMetaComparisonIndex s) of
                   Inr index \<Rightarrow> s\<lparr>docMetaComparisonIndex := index\<rparr>
                 | Inl e \<Rightarrow> s\<lparr>logged := logged s @ [LogError ''Could not handle delete: '' e]\<rparr>)
            | Rejected e \<Rightarrow> s\<lparr>logged := logged s @ [LogError ''Could not handle delete: '' e]\<rparr>)
      else s)"

definition mutation_step ::
  "DatastoreConsistency \<Rightarrow> (DocMetaComparisonIndex \<Rightarrow> err + DocMetaComparisonIndex)
     \<Rightarrow> mutation_call \<Rightarrow> bool store_event \<Rightarrow> mutation_call" where
  "mutation_step c callback s ev =
     on_written callback (written (datastoreMutation (execution s)))
       (s\<lparr>execution := step c (execution s) ev\<rparr>)"

definition mutation_call :: "DocMetaComparisonIndex \<Rightarrow> mutation_call" where
  "mutation_call index =
     \<lparr>execution = executeBatchedWrite, docMetaComparisonIndex = index, logged = []\<rparr>"

text \<open>
  \<open>write\<close>: the callback is \<open>this.docMetaComparisonIndex.updateUsingDocInfo(docInfo)\<close>,
  a method of the index and so a parameter here; the remote operation is the cloud
  store's write, the local one the local store's. The consistency policy is that of
  \<open>this.datastoreMutations\<close>, which the class inherits. The promise \<open>write\<close> returns is
  the one \<open>executeBatchedWrite\<close> returns.
\<close>

definition write_run ::
  "DatastoreConsistency \<Rightarrow> (DocMetaComparisonIndex \<Rightarrow> err + DocMetaComparisonIndex)
     \<Rightarrow> DocMetaComparisonIndex \<Rightarrow> bool store_event list \<Rightarrow> mutation_call" where
  "write_run c updateUsingDocInfo index evs =
     foldl (mutation_step c updateUsingDocInfo) (mutation_call index) evs"

definition write_result :: "mutation_call \<Rightarrow> unit promise" where
  "write_result s = returned (execution s)"

text \<open>
  \<open>delete\<close>: the callback is \<open>this.docMetaComparisonIndex.remove(fingerprint)\<close>, with
  \<open>remove\<close> a parameter (\<open>DocMetaComparisonIndex_remove\<close> is the one the spec
  describes). \<open>delete\<close> awaits \<open>executeBatchedWrite\<close> and then returns the empty result.
\<close>

datatype CloudAwareDeleteResult = CloudAwareDeleteResult

definition delete_run ::
  "DatastoreConsistency \<Rightarrow> (string \<Rightarrow> DocMetaComparisonIndex \<Rightarrow> err + DocMetaComparisonIndex)
     \<Rightarrow> string \<Rightarrow> DocMetaComparisonIndex \<Rightarrow> bool store_event list \<Rightarrow> mutation_call" where
  "delete_run c remove_entry fingerprint index evs =
     foldl (mutation_step c (remove_entry fingerprint)) (mutation_call index) evs"

definition delete_result :: "mutation_call \<Rightarrow> CloudAwareDeleteResult promise" where
  "delete_result s =
     (case returned (execution s) of
        Pending \<Rightarrow> Pending
      | Resolved u \<Rightarrow> Resolved CloudAwareDeleteResult
      | Rejected e \<Rightarrow> Rejected e)"


section \<open>CloudAwareDatastore: snapshots\<close>

subsection \<open>Events of a change feed\<close>

datatype CloudDatastoreID = local | cloud

datatype MutationType = created | updated | deleted

type_synonym DocMetaFileRef = string

text \<open>
  Modelled from the spec: the event types of \<open>Datastore\<close> are not among the sources. A
  mutation names its document by fingerprint and carries its type and providers that are
  resolved on demand; the provider of the document info is given here by the marker it
  yields, and what the provider of the file reference yields is part of what the
  environment replies. An event carries its batch (which may be absent), its consistency
  and its mutations.
\<close>

record DocMetaMutation =
  fingerprint :: string
  mutationType :: MutationType
  docInfoProvider :: nat

record DocMetaSnapshotBatch =
  batch_id :: nat
  terminated :: bool

record DocMetaSnapshotEvent =
  batch :: "DocMetaSnapshotBatch option"
  consistency :: DatastoreConsistency
  docMetaMutations :: "DocMetaMutation list"

datatype SyncDoc = SyncDoc (doc_fingerprint: string) (doc_marker: nat)

type_synonym SyncDocMap = "string \<rightharpoonup> SyncDoc"

text \<open>
  Modelled from the spec: \<open>SyncDocMaps.putAll\<close> is not among the sources; it enters
  every document of the array into the map under its fingerprint.
\<close>

definition SyncDocMaps_putAll :: "SyncDocMap \<Rightarrow> SyncDoc list \<Rightarrow> SyncDocMap" where
  "SyncDocMaps_putAll syncDocMap syncDocs =
     foldl (\<lambda>m d. m(doc_fingerprint d \<mapsto> d)) syncDocMap syncDocs"

subsection \<open>InitialSnapshotLatch\<close>

record InitialSnapshotLatch =
  syncDocMap :: SyncDocMap
  latch :: "bool promise"
  hasInitialTerminatedBatch :: bool
  pending :: int

definition InitialSnapshotLatch :: InitialSnapshotLatch where
  "InitialSnapshotLatch =
     \<lparr>syncDocMap = Map.empty, latch = Pending, hasInitialTerminatedBatch = False, pending = 0\<rparr>"

text \<open>The \<open>finally\<close> block of \<open>handleSnapshot\<close>; it runs on every way out of the body.\<close>

definition handleSnapshot_finally :: "InitialSnapshotLatch \<Rightarrow> InitialSnapshotLatch" where
  "handleSnapshot_finally l =
     (let l1 = l\<lparr>pending := pending l - 1\<rparr>
      in if hasInitialTerminatedBatch l1 \<and> pending l1 = 0
         then l1\<lparr>latch := latch_resolve True (latch l1)\<rparr>
         else l1)"

text \<open>
  \<open>handleSnapshot\<close> up to its \<open>await\<close>: on an early return the \<open>finally\<close> block runs
  at once; otherwise \<open>pending\<close> is incremented and the method waits for
  \<open>DocMetaSnapshotEvents.toSyncDocs\<close> (the result \<open>True\<close>).
\<close>

definition handleSnapshot_enter ::
  "InitialSnapshotLatch \<Rightarrow> DocMetaSnapshotEvent \<Rightarrow> InitialSnapshotLatch \<times> bool" where
  "handleSnapshot_enter l docMetaSnapshotEvent =
     (if hasInitialTerminatedBatch l then (handleSnapshot_finally l, False)
      else case batch docMetaSnapshotEvent of
             None \<Rightarrow> (handleSnapshot_finally l, False)
           | Some b \<Rightarrow>
               if batch_id b = 0
               then (l\<lparr>pending := pending l + 1\<rparr>, True)
               else (handleSnapshot_finally l, False))"

text \<open>
  \<open>handleSnapshot\<close> after its \<open>await\<close>, with what \<open>toSyncDocs\<close> settled with
  (\<open>Inl e\<close> when it rejected with \<open>e\<close>, and then the method rejects with \<open>e\<close> too). Other
  events may have been handled in between.
\<close>

definition handleSnapshot_resume ::
  "InitialSnapshotLatch \<Rightarrow> DocMetaSnapshotEvent \<Rightarrow> err + SyncDoc list \<Rightarrow> InitialSnapshotLatch" where
  "handleSnapshot_resume l docMetaSnapshotEvent r =
     (case r of
        Inl e \<Rightarrow> handleSnapshot_finally l
      | Inr syncDocs \<Rightarrow>
          (let l2 = l\<lparr>syncDocMap := SyncDocMaps_putAll (syncDocMap l) syncDocs\<rparr>;
               l3 = (if consistency docMetaSnapshotEvent = Committed \<and>
                        (case batch docMetaSnapshotEvent of None \<Rightarrow> False | Some b \<Rightarrow> terminated b)
                     then l2\<lparr>hasInitialTerminatedBatch := True\<rparr>
                     else l2)
           in handleSnapshot_finally l3))"

subsection \<open>What a snapshot session does to its collaborators\<close>

text \<open>
  Modelled from the spec: \<open>PersistenceLayers\<close> is not among the sources; the spec
  (sections 4.5 and 6) gives \<open>transfer\<close> a direction, cloud to local or local to cloud.
\<close>

datatype TransferDirection = cloud_to_local | local_to_cloud

text \<open>
  The calls the code makes on its collaborators, in the order it makes them:
  the caller-supplied \<open>docMetaSnapshotEventListener\<close>;
  \<open>PersistenceLayers.toSyncDocMapFromDocs(this.local, refs)\<close> with the fingerprints of
  the references; \<open>PersistenceLayers.transfer\<close> with its direction, the documents of the
  cloud origin and the documents of the local origin; \<open>this.local.delete\<close>; the dispatch
  of a synchronization event with its destination;
  \<open>PersistenceLayers.synchronizeOrigins\<close>; \<open>log.error\<close> with its text, the snapshot id
  the text ends with, and the error; the error listener; the shutdown hook; the
  unsubscribe function of a feed; \<open>stop\<close> of a store.
\<close>

datatype effect =
    Listener DocMetaSnapshotEvent
  | LocalSyncDocMap "string list"
  | Transfer TransferDirection "SyncDoc list" "SyncDoc list"
  | LocalDelete DocMetaFileRef
  | DispatchSynchronizationEvent DocMetaSnapshotEvent CloudDatastoreID
  | SynchronizeOrigins
  | Logged string nat err
  | ErrorListener err
  | ShutdownHook
  | Unsubscribe CloudDatastoreID
  | StopDatastore CloudDatastoreID

text \<open>
  What a call that the code awaits settles with: a rejection, the documents that
  \<open>toSyncDocs\<close> or \<open>toSyncDocMapFromDocs\<close> yield, the file reference that a
  \<open>docMetaFileRefProvider\<close> yields, or plain completion.
\<close>

datatype reply = Rejects err | SyncDocs "SyncDoc list" | FileRef DocMetaFileRef | Resolves

subsection \<open>snapshot\<close>

text \<open>
  Modelled from the spec: the result of a store's \<open>snapshot\<close> is not among the sources;
  the spec (section 6) gives it as \<open>{unsubscribe}\<close>, the function that ends the
  subscription to that store's feed. The field is optional in the code (\<open>stop\<close> tests
  it). The function is given by the store whose feed it ends.
\<close>

record SnapshotResult =
  unsubscribe :: "CloudDatastoreID option"

definition datastore_snapshot :: "CloudDatastoreID \<Rightarrow> SnapshotResult" where
  "datastore_snapshot datastore = \<lparr>unsubscribe = Some datastore\<rparr>"

text \<open>The points at which the body of \<open>snapshot\<close> waits, and its return.\<close>

datatype snapshot_point =
    AwaitLocalLatch
  | AwaitCloudLatch
  | AwaitSynchronizeOrigins
  | AwaitSnapshotResults
  | Returned

text \<open>
  An event that a store has delivered is handled in several steps, each of which ends at
  an \<open>await\<close>; other events, and the body of \<open>snapshot\<close>, run in between. The stages
  are the calls a delivery can be waiting for: \<open>toSyncDocs\<close> inside \<open>handleSnapshot\<close>;
  the deduplicator that wraps the synchronizing listener; inside the loop of
  \<open>handleSnapshotSynchronization\<close>, with the mutations that remain after the current
  one, \<open>toSyncDocs\<close> (\<open>toCloudSyncOrigin\<close>), \<open>toSyncDocMapFromDocs\<close>
  (\<open>toLocalSyncOrigin\<close>, with the documents of the cloud origin), \<open>transfer\<close>,
  \<open>docMetaFileRefProvider\<close> and \<open>this.local.delete\<close>; the caller-supplied listener in
  the \<open>finally\<close> block of \<open>handleEvent\<close>, with the error the \<open>try\<close> block threw, if
  any. A delivery ends aborted (the listener of \<open>createSnapshot\<close> rejected before the
  event reached \<open>handleEvent\<close>), suppressed by the deduplicator, or forwarded.
\<close>

datatype ending = Aborted | Suppressed | Forwarded

datatype stage =
    AwaitToSyncDocs
  | AwaitDeduplicator
  | AwaitCloudSyncOrigin "DocMetaMutation list"
  | AwaitLocalSyncOrigin "SyncDoc list" "DocMetaMutation list"
  | AwaitTransfer "DocMetaMutation list"
  | AwaitDocMetaFileRef "DocMetaMutation list"
  | AwaitLocalDelete "DocMetaMutation list"
  | AwaitListener "err option"
  | Finished ending

record delivery =
  origin :: CloudDatastoreID
  event :: DocMetaSnapshotEvent
  stage :: stage

text \<open>
  One call of \<open>snapshot\<close>: its local variables (\<open>snapshotID\<close> is the value of the
  static counter at the call), the comparison index of the datastore (which the
  synchronizing deduplicator is given), the feeds that have been subscribed to, the point
  the body has reached, the events delivered so far in the order of their delivery, and
  the calls made so far.
\<close>

record snapshot_session =
  isPrimarySnapshot :: bool
  snapshotID :: nat
  initialSyncCompleted :: bool
  localInitialSnapshotLatch :: InitialSnapshotLatch
  cloudInitialSnapshotLatch :: InitialSnapshotLatch
  comparisonIndex :: DocMetaComparisonIndex
  subscriptions :: "CloudDatastoreID set"
  point :: snapshot_point
  deliveries :: "delivery list"
  effects :: "effect list"

text \<open>
  The body up to its first wait: the local feed is subscribed to
  (\<open>localInitialSnapshotLatch.createSnapshot(this.local)\<close>) and the body waits for the
  local latch. \<open>isPrimary\<close> is \<open>this.primarySnapshot === undefined\<close>.
\<close>

definition snapshot :: "bool \<Rightarrow> nat \<Rightarrow> DocMetaComparisonIndex \<Rightarrow> snapshot_session" where
  "snapshot isPrimary id0 index =
     \<lparr>isPrimarySnapshot = isPrimary,
      snapshotID = id0,
      initialSyncCompleted = False,
      localInitialSnapshotLatch = InitialSnapshotLatch,
      cloudInitialSnapshotLatch = InitialSnapshotLatch,
      comparisonIndex = index,
      subscriptions = {local},
      point = AwaitLocalLatch,
      deliveries = [],
      effects = []\<rparr>"

text \<open>
  The body resumes: after the local latch the cloud feed is subscribed to; after the cloud
  latch the primary snapshot calls \<open>synchronizeOrigins\<close> and waits for it; then
  \<open>initialSyncCompleted\<close> is set, the results of the two subscriptions are awaited, and
  the body returns.
\<close>

definition advance :: "snapshot_session \<Rightarrow> snapshot_session" where
  "advance s =
     (case point s of
        AwaitLocalLatch \<Rightarrow>
          (case latch (localInitialSnapshotLatch s) of
             Resolved v \<Rightarrow> s\<lparr>subscriptions := insert cloud (subscriptions s), point := AwaitCloudLatch\<rparr>
           | Pending \<Rightarrow> s
           | Rejected e \<Rightarrow> s)
      | AwaitCloudLatch \<Rightarrow>
          (case latch (cloudInitialSnapshotLatch s) of
             Resolved v \<Rightarrow>
               if isPrimarySnapshot s
               then s\<lparr>effects := effects s @ [SynchronizeOrigins], point := AwaitSynchronizeOrigins\<rparr>
               else s\<lparr>initialSyncCompleted := True, point := AwaitSnapshotResults\<rparr>
           | Pending \<Rightarrow> s
           | Rejected e \<Rightarrow> s)
      | AwaitSynchronizeOrigins \<Rightarrow> s\<lparr>initialSyncCompleted := True, point := AwaitSnapshotResults\<rparr>
      | AwaitSnapshotResults \<Rightarrow> s\<lparr>point := Returned\<rparr>
      | Returned \<Rightarrow> s)"

text \<open>The value \<open>snapshot\<close> returns: \<open>{unsubscribe: cloudSnapshotResult.unsubscribe}\<close>.\<close>

definition snapshot_result :: "snapshot_session \<Rightarrow> SnapshotResult option" where
  "snapshot_result s =
     (if point s = Returned
      then Some \<lparr>unsubscribe = unsubscribe (datastore_snapshot cloud)\<rparr>
      else None)"

definition initialSnapshotLatch :: "CloudDatastoreID \<Rightarrow> snapshot_session \<Rightarrow> InitialSnapshotLatch" where
  "initialSnapshotLatch datastore s =
     (case datastore of
        local \<Rightarrow> localInitialSnapshotLatch s
      | cloud \<Rightarrow> cloudInitialSnapshotLatch s)"

definition set_initialSnapshotLatch ::
  "CloudDatastoreID \<Rightarrow> InitialSnapshotLatch \<Rightarrow> snapshot_session \<Rightarrow> snapshot_session" where
  "set_initialSnapshotLatch datastore l s =
     (case datastore of
        local \<Rightarrow> s\<lparr>localInitialSnapshotLatch := l\<rparr>
      | cloud \<Rightarrow> s\<lparr>cloudInitialSnapshotLatch := l\<rparr>)"

definition add_delivery ::
  "CloudDatastoreID \<Rightarrow> DocMetaSnapshotEvent \<Rightarrow> stage \<Rightarrow> snapshot_session \<Rightarrow> snapshot_session" where
  "add_delivery datastore docMetaSnapshotEvent st s =
     s\<lparr>deliveries := deliveries s @ [\<lparr>origin = datastore, event = docMetaSnapshotEvent, stage = st\<rparr>]\<rparr>"

definition set_stage :: "nat \<Rightarrow> stage \<Rightarrow> snapshot_session \<Rightarrow> snapshot_session" where
  "set_stage n st s = s\<lparr>deliveries := (deliveries s)[n := (deliveries s ! n)\<lparr>stage := st\<rparr>]\<rparr>"

definition set_event :: "nat \<Rightarrow> DocMetaSnapshotEvent \<Rightarrow> snapshot_session \<Rightarrow> snapshot_session" where
  "set_event n ev s = s\<lparr>deliveries := (deliveries s)[n := (deliveries s ! n)\<lparr>event := ev\<rparr>]\<rparr>"

definition call :: "effect \<Rightarrow> snapshot_session \<Rightarrow> snapshot_session" where
  "call x s = s\<lparr>effects := effects s @ [x]\<rparr>"

text \<open>
  The listener that \<open>createSnapshot\<close> hands to a store, called by that store with an
  event of its feed, up to its first wait. It reads \<open>initialSyncCompleted\<close>: as long as
  the initial synchronization has not completed it calls \<open>handleSnapshot\<close>; then, or
  when \<open>handleSnapshot\<close> has returned early, it calls the synchronizing listener, that
  is, the deduplicator. A store that has not been subscribed to delivers nothing.
\<close>

definition deliver ::
  "CloudDatastoreID \<Rightarrow> DocMetaSnapshotEvent \<Rightarrow> snapshot_session \<Rightarrow> snapshot_session" where
  "deliver datastore docMetaSnapshotEvent s =
     (if datastore \<in> subscriptions s
      then if initialSyncCompleted s
           then add_delivery datastore docMetaSnapshotEvent AwaitDeduplicator s
           else (case handleSnapshot_enter (initialSnapshotLatch datastore s) docMetaSnapshotEvent of
                   (l, True) \<Rightarrow>
                     add_delivery datastore docMetaSnapshotEvent AwaitToSyncDocs
                       (set_initialSnapshotLatch datastore l s)
                 | (l, False) \<Rightarrow>
                     add_delivery datastore docMetaSnapshotEvent AwaitDeduplicator
                       (set_initialSnapshotLatch datastore l s))
      else s)"

text \<open>
  The \<open>finally\<close> block of \<open>handleEvent\<close> calls the caller-supplied listener with the
  event and waits for it; \<open>thrown\<close> is the error of the \<open>try\<close> block, if any.
\<close>

definition handleEvent_finally :: "err option \<Rightarrow> nat \<Rightarrow> snapshot_session \<Rightarrow> snapshot_session" where
  "handleEvent_finally thrown n s =
     set_stage n (AwaitListener thrown) (call (Listener (event (deliveries s ! n))) s)"

text \<open>
  The \<open>catch\<close> on \<open>handleEvent()\<close>: the error is logged with the id of the snapshot and
  given to the error listener.
\<close>

definition handleEvent_catch :: "err \<Rightarrow> nat \<Rightarrow> snapshot_session \<Rightarrow> snapshot_session" where
  "handleEvent_catch e n s =
     set_stage n (Finished Forwarded)
       (call (ErrorListener e)
          (call (Logged ''Unable to handle synchronizing snapshot '' (snapshotID s) e) s))"

text \<open>
  The head of the loop of \<open>handleSnapshotSynchronization\<close> over the mutations that remain:
  a created or updated mutation starts with \<open>toCloudSyncOrigin\<close>, which awaits
  \<open>toSyncDocs\<close> of the event; a deleted one with its \<open>docMetaFileRefProvider\<close>. After
  the last mutation the synchronization event is dispatched with destination local, and
  the \<open>try\<close> block of \<open>handleEvent\<close> ends.
\<close>

definition next_mutation :: "DocMetaMutation list \<Rightarrow> nat \<Rightarrow> snapshot_session \<Rightarrow> snapshot_session" where
  "next_mutation mutations n s =
     (case mutations of
        [] \<Rightarrow>
          handleEvent_finally None n
            (call (DispatchSynchronizationEvent (event (deliveries s ! n)) local) s)
      | docMetaMutation # rest \<Rightarrow>
          (case mutationType docMetaMutation of
             created \<Rightarrow> set_stage n (AwaitCloudSyncOrigin rest) s
           | updated \<Rightarrow> set_stage n (AwaitCloudSyncOrigin rest) s
           | deleted \<Rightarrow> set_stage n (AwaitDocMetaFileRef rest) s))"

text \<open>
  \<open>handleEvent\<close>, called by the deduplicator with the event it lets through. It reads
  \<open>initialSyncCompleted\<close> again: \<open>handleSnapshotSynchronization\<close> runs only once the
  initial synchronization has completed, and only on the primary snapshot; it returns at
  once for an event that is not committed.
\<close>

definition handleEvent :: "nat \<Rightarrow> snapshot_session \<Rightarrow> snapshot_session" where
  "handleEvent n s =
     (if initialSyncCompleted s \<and> isPrimarySnapshot s
      then if consistency (event (deliveries s ! n)) = Committed
           then next_mutation (docMetaMutations (event (deliveries s ! n))) n s
           else handleEvent_finally None n s
      else handleEvent_finally None n s)"

text \<open>
  The synchronizing listener is \<open>handleEvent\<close> wrapped by
  \<open>DocMetaSnapshotEventListeners.createDeduplicatedListener\<close>, which is not among the
  sources and is a parameter: given the comparison index and an event it yields the event
  it passes on (\<open>None\<close> when it suppresses the event) and the index it leaves.
\<close>

type_synonym deduplicator =
  "DocMetaComparisonIndex \<Rightarrow> DocMetaSnapshotEvent \<Rightarrow> DocMetaSnapshotEvent option \<times> DocMetaComparisonIndex"

text \<open>
  The call that delivery \<open>n\<close> waits for settles, and the delivery runs on to its next
  wait. A rejection inside \<open>handleSnapshot\<close> or the deduplicator rejects the listener of
  \<open>createSnapshot\<close>; a rejection inside the loop of \<open>handleSnapshotSynchronization\<close>
  leaves the loop, and with it the dispatch, for the \<open>finally\<close> block of
  \<open>handleEvent\<close>; after the caller-supplied listener the \<open>catch\<close> runs when the
  \<open>try\<close> block or the listener has thrown. A reply that the awaited call cannot give
  changes nothing.
\<close>

fun resume_at ::
  "deduplicator \<Rightarrow> nat \<Rightarrow> snapshot_session \<Rightarrow> delivery \<Rightarrow> stage \<Rightarrow> reply \<Rightarrow> snapshot_session" where
  "resume_at dedup n s d AwaitToSyncDocs (SyncDocs syncDocs) =
     set_stage n AwaitDeduplicator
       (set_initialSnapshotLatch (origin d)
          (handleSnapshot_resume (initialSnapshotLatch (origin d) s) (event d) (Inr syncDocs)) s)"
| "resume_at dedup n s d AwaitToSyncDocs (Rejects e) =
     set_stage n (Finished Aborted)
       (set_initialSnapshotLatch (origin d)
          (handleSnapshot_resume (initialSnapshotLatch (origin d) s) (event d) (Inl e)) s)"
| "resume_at dedup n s d AwaitDeduplicator Resolves =
     (case dedup (comparisonIndex s) (event d) of
        (None, index) \<Rightarrow> set_stage n (Finished Suppressed) (s\<lparr>comparisonIndex := index\<rparr>)
      | (Some passed, index) \<Rightarrow> handleEvent n (set_event n passed (s\<lparr>comparisonIndex := index\<rparr>)))"
| "resume_at dedup n s d AwaitDeduplicator (Rejects e) = set_stage n (Finished Aborted) s"
| "resume_at dedup n s d (AwaitCloudSyncOrigin rest) (SyncDocs syncDocs) =
     set_stage n (AwaitLocalSyncOrigin syncDocs rest)
       (call (LocalSyncDocMap (map fingerprint (docMetaMutations (event d)))) s)"
| "resume_at dedup n s d (AwaitCloudSyncOrigin rest) (Rejects e) = handleEvent_finally (Some e) n s"
| "resume_at dedup n s d (AwaitLocalSyncOrigin cloudDocs rest) (SyncDocs localDocs) =
     set_stage n (AwaitTransfer rest) (call (Transfer cloud_to_local cloudDocs localDocs) s)"
| "resume_at dedup n s d (AwaitLocalSyncOrigin cloudDocs rest) (Rejects e) =
     handleEvent_finally (Some e) n s"
| "resume_at dedup n s d (AwaitTransfer rest) Resolves = next_mutation rest n s"
| "resume_at dedup n s d (AwaitTransfer rest) (Rejects e) = handleEvent_finally (Some e) n s"
| "resume_at dedup n s d (AwaitDocMetaFileRef rest) (FileRef docMetaFileRef) =
     set_stage n (AwaitLocalDelete rest) (call (LocalDelete docMetaFileRef) s)"
| "resume_at dedup n s d (AwaitDocMetaFileRef rest) (Rejects e) = handleEvent_finally (Some e) n s"
| "resume_at dedup n s d (AwaitLocalDelete rest) Resolves = next_mutation rest n s"
| "resume_at dedup n s d (AwaitLocalDelete rest) (Rejects e) = handleEvent_finally (Some e) n s"
| "resume_at dedup n s d (AwaitListener None) Resolves = set_stage n (Finished Forwarded) s"
| "resume_at dedup n s d (AwaitListener (Some e)) Resolves = handleEvent_catch e n s"
| "resume_at dedup n s d (AwaitListener thrown) (Rejects e) = handleEvent_catch e n s"
| "resume_at dedup n s d st r = s"

definition resume :: "deduplicator \<Rightarrow> nat \<Rightarrow> reply \<Rightarrow> snapshot_session \<Rightarrow> snapshot_session" where
  "resume dedup n r s =
     (if n < length (deliveries s)
      then resume_at dedup n s (deliveries s ! n) (stage (deliveries s ! n)) r
      else s)"

text \<open>
  What happens to a session: a store delivers an event, the call a delivery waits for
  settles, or the body of \<open>snapshot\<close> resumes.
\<close>

datatype session_event =
    Deliver CloudDatastoreID DocMetaSnapshotEvent
  | Settle nat reply
  | Advance

fun session_step :: "deduplicator \<Rightarrow> snapshot_session \<Rightarrow> session_event \<Rightarrow> snapshot_session" where
  "session_step dedup s (Deliver datastore ev) = deliver datastore ev s"
| "session_step dedup s (Settle n r) = resume dedup n r s"
| "session_step dedup s Advance = advance s"

definition session_run ::
  "deduplicator \<Rightarrow> bool \<Rightarrow> nat \<Rightarrow> DocMetaComparisonIndex \<Rightarrow> session_event list \<Rightarrow> snapshot_session" where
  "session_run dedup isPrimary id0 index evs =
     foldl (session_step dedup) (snapshot isPrimary id0 index) evs"

subsection \<open>init and stop\<close>

text \<open>
  The part of the datastore object that \<open>stop\<close> reads: the primary snapshot that
  \<open>init\<close> stored, and the feeds that are subscribed to.
\<close>

record CloudAwareDatastore =
  primarySnapshot :: "SnapshotResult option"
  feeds :: "CloudDatastoreID set"

text \<open>\<open>init\<close> stores the result of its call of \<open>snapshot\<close>, once that has returned.\<close>

definition init :: "snapshot_session \<Rightarrow> CloudAwareDatastore" where
  "init s = \<lparr>primarySnapshot = snapshot_result s, feeds = subscriptions s\<rparr>"

text \<open>Calling an unsubscribe function ends the subscription to the feed it belongs to.\<close>

definition call_unsubscribe :: "CloudDatastoreID \<Rightarrow> CloudDatastoreID set \<Rightarrow> CloudDatastoreID set" where
  "call_unsubscribe datastore active = active - {datastore}"

text \<open>
  \<open>stop\<close>: the shutdown hook, the unsubscribe function of the primary snapshot when
  there is one, then \<open>stop\<close> of both stores. The result is the datastore object and the
  calls made.
\<close>

definition stop :: "CloudAwareDatastore \<Rightarrow> CloudAwareDatastore \<times> effect list" where
  "stop d =
     (case primarySnapshot d of
        None \<Rightarrow> (d, [ShutdownHook, StopDatastore cloud, StopDatastore local])
      | Some r \<Rightarrow>
          (case unsubscribe r of
             None \<Rightarrow> (d, [ShutdownHook, StopDatastore cloud, StopDatastore local])
           | Some datastore \<Rightarrow>
               (d\<lparr>feeds := call_unsubscribe datastore (feeds d)\<rparr>,
                [ShutdownHook, Unsubscribe datastore, StopDatastore cloud, StopDatastore local])))"

subsection \<open>The deduplicator of the spec\<close>

text \<open>
  Modelled from the spec: \<open>createDeduplicatedListener\<close> is not among the sources. The spec
  (section 4.5) says that an event whose fingerprint and marker are not newer than what the
  index records is suppressed; an event that is passed on is recorded in the index.
\<close>

definition newer :: "DocMetaComparisonIndex \<Rightarrow> DocMetaMutation \<Rightarrow> bool" where
  "newer index m = (case index (fingerprint m) of None \<Rightarrow> True | Some k \<Rightarrow> k < docInfoProvider m)"

definition createDeduplicatedListener :: deduplicator where
  "createDeduplicatedListener index ev =
     (if list_ex (newer index) (docMetaMutations ev)
      then (Some ev, foldl (\<lambda>i m. i(fingerprint m \<mapsto> docInfoProvider m)) index (docMetaMutations ev))
      else (None, index))"

section \<open>Invariants of an execution of executeBatchedWrite\<close>

text \<open>
  The merge of two latches that \<open>batchPromises\<close> computes into a target that nothing
  else settles.
\<close>

definition merged :: "'a promise \<Rightarrow> 'a promise \<Rightarrow> 'a promise" where
  "merged p0 p1 = (case Promise_all p0 p1 of Pending \<Rightarrow> Pending | Resolved r \<Rightarrow> Resolved (fst r) | Rejected e \<Rightarrow> Rejected e)"

text \<open>
  \<open>localSync\<close> has been called exactly when the written latch of the remote coordinator
  has resolved; before that the local coordinator is untouched.
\<close>

definition gated :: "'a batched_write \<Rightarrow> bool" where
  "gated s \<longleftrightarrow>
     (case localSync s of
        None \<Rightarrow> localCoordinator s = DefaultDatastoreMutation \<and> (\<forall>v. written (remoteCoordinator s) \<noteq> Resolved v)
      | Some p \<Rightarrow> (\<exists>v. written (remoteCoordinator s) = Resolved v))"

text \<open>The written latch of the caller's handle is the merge of the two legs' latches.\<close>

definition written_merged :: "'a batched_write \<Rightarrow> bool" where
  "written_merged s \<longleftrightarrow>
     written (datastoreMutation s) = merged (written (remoteCoordinator s)) (written (localCoordinator s))"

text \<open>
  Under the written policy the committed latch of the caller's handle stays unsettled and
  the returned promise is never resolved.
\<close>

definition written_policy :: "'a batched_write \<Rightarrow> bool" where
  "written_policy s \<longleftrightarrow> committed (datastoreMutation s) = Pending \<and> returned s \<noteq> Resolved ()"

text \<open>
  The committed latch of the caller's handle: untouched under the written policy, the
  merge of the two legs' committed latches under the committed policy (the error of
  either when both have rejected).
\<close>

definition committed_merged :: "DatastoreConsistency \<Rightarrow> 'a batched_write \<Rightarrow> bool" where
  "committed_merged c s \<longleftrightarrow>
     (case c of
        Written \<Rightarrow> committed (datastoreMutation s) = Pending
      | Committed \<Rightarrow>
          (case (committed (remoteCoordinator s), committed (localCoordinator s)) of
             (Rejected d, Rejected e) \<Rightarrow>
                committed (datastoreMutation s) = Rejected d \<or> committed (datastoreMutation s) = Rejected e
           | (p0, p1) \<Rightarrow> committed (datastoreMutation s) = merged p0 p1))"

text \<open>
  A call of \<open>write\<close> or \<open>delete\<close> that started with the index \<open>index0\<close>: the index
  and the log are determined by the written latch of the caller's handle and by what the
  callback does on \<open>index0\<close>.
\<close>

definition index_settled ::
  "(DocMetaComparisonIndex \<Rightarrow> err + DocMetaComparisonIndex) \<Rightarrow> DocMetaComparisonIndex \<Rightarrow> mutation_call
     \<Rightarrow> bool" where
  "index_settled callback index0 s \<longleftrightarrow>
     (case written (datastoreMutation (execution s)) of
        Pending \<Rightarrow> docMetaComparisonIndex s = index0 \<and> logged s = []
      | Resolved v \<Rightarrow>
          (case callback index0 of
             Inr index \<Rightarrow> docMetaComparisonIndex s = index \<and> logged s = []
           | Inl e \<Rightarrow>
               docMetaComparisonIndex s = index0 \<and>
               logged s = [LogError ''Could not handle delete: '' e])
      | Rejected e \<Rightarrow>
          docMetaComparisonIndex s = index0 \<and> logged s = [LogError ''Could not handle delete: '' e])"

text \<open>
  Whether a handle has reached the level of the consistency policy: its written latch has
  resolved under the written policy, its committed latch under the committed policy.
\<close>

definition reached :: "DatastoreConsistency \<Rightarrow> 'a DatastoreMutation \<Rightarrow> bool" where
  "reached c dm =
     (case c of
        Written \<Rightarrow> (case written dm of Resolved v \<Rightarrow> True | Pending \<Rightarrow> False | Rejected e \<Rightarrow> False)
      | Committed \<Rightarrow> (case committed dm of Resolved v \<Rightarrow> True | Pending \<Rightarrow> False | Rejected e \<Rightarrow> False))"

section \<open>The course of the ongoing synchronization\<close>

text \<open>
  Whether a delivery is inside the loop of \<open>handleSnapshotSynchronization\<close>, and whether
  the \<open>try\<close> block of \<open>handleEvent\<close> has ended for it.
\<close>

fun synchronizing :: "stage \<Rightarrow> bool" where
  "synchronizing (AwaitCloudSyncOrigin rest) = True"
| "synchronizing (AwaitLocalSyncOrigin cloudDocs rest) = True"
| "synchronizing (AwaitTransfer rest) = True"
| "synchronizing (AwaitDocMetaFileRef rest) = True"
| "synchronizing (AwaitLocalDelete rest) = True"
| "synchronizing st = False"






text \<open>The stage in which the head of the loop leaves a delivery.\<close>

definition next_stage :: "DocMetaMutation list \<Rightarrow> stage" where
  "next_stage ms =
     (case ms of
        [] \<Rightarrow> AwaitListener None
      | m # rest \<Rightarrow>
          (case mutationType m of
             created \<Rightarrow> AwaitCloudSyncOrigin rest
           | updated \<Rightarrow> AwaitCloudSyncOrigin rest
           | deleted \<Rightarrow> AwaitDocMetaFileRef rest))"

section \<open>Example events\<close>

text \<open>
  The terminating event of an empty initial batch; a run of a snapshot in which both
  stores deliver it and the body runs to its return; a later committed event that creates
  a document; an event of the initial batch that creates a document and does not
  terminate the batch.
\<close>

abbreviation empty_initial_batch :: DocMetaSnapshotEvent where
  "empty_initial_batch \<equiv>
     \<lparr>batch = Some \<lparr>batch_id = 0, terminated = True\<rparr>, consistency = Committed, docMetaMutations = []\<rparr>"

abbreviation initial_synchronization :: "session_event list" where
  "initial_synchronization \<equiv>
     [Deliver local empty_initial_batch, Settle 0 (SyncDocs []), Settle 0 Resolves, Advance,
      Deliver cloud empty_initial_batch, Settle 1 (SyncDocs []), Settle 1 Resolves, Advance,
      Advance, Advance]"



section \<open>Properties of executeBatchedWrite\<close>

lemmas latch_defs = latch_resolve_def latch_reject_def settle_def

lemma settle_Pending [simp]: "settle (Inl e) Pending = Rejected e" "settle (Inr v) Pending = Resolved v"
  by (simp_all add: latch_defs)

lemma mr_remoteCoordinator [simp]: "remoteCoordinator (merge_and_return c s) = remoteCoordinator s"
  and mr_localCoordinator [simp]: "localCoordinator (merge_and_return c s) = localCoordinator s"
  and mr_localSync [simp]: "localSync (merge_and_return c s) = localSync s"
  and mr_remoteSync [simp]: "remoteSync (merge_and_return c s) = remoteSync s"
  by (simp_all add: merge_and_return_def Let_def reject_def resolve_def split: promise.splits)

lemma mr_written [simp]:
  "written (datastoreMutation (merge_and_return c s)) =
     batchPromises (written (remoteCoordinator s)) (written (localCoordinator s)) (written (datastoreMutation s))"
  by (simp add: merge_and_return_def Let_def reject_def resolve_def batched_def split: promise.splits)

lemma mr_committed [simp]:
  "committed (datastoreMutation (merge_and_return c s)) =
     (if c = Committed
      then batchPromises (committed (remoteCoordinator s)) (committed (localCoordinator s)) (committed (datastoreMutation s))
      else committed (datastoreMutation s))"
  by (simp add: merge_and_return_def Let_def reject_def resolve_def batched_def split: promise.splits)

lemma mr_returned_Written [simp]: "returned (merge_and_return Written s) = returned s"
  by (simp add: merge_and_return_def Let_def)

lemma mr_returned_Committed:
  "returned (merge_and_return Committed s) =
     (case batchPromises (committed (remoteCoordinator s)) (committed (localCoordinator s)) (committed (datastoreMutation s)) of
        Pending \<Rightarrow> returned s
      | Resolved v \<Rightarrow> latch_resolve () (returned s)
      | Rejected e \<Rightarrow> latch_reject e (returned s))"
  by (simp add: merge_and_return_def Let_def reject_def resolve_def batched_def split: promise.splits)

lemma reject_fields [simp]:
  "remoteCoordinator (reject e s) = remoteCoordinator s"
  "localCoordinator (reject e s) = localCoordinator s"
  "datastoreMutation (reject e s) = datastoreMutation s"
  "localSync (reject e s) = localSync s"
  "remoteSync (reject e s) = remoteSync s"
  "returned (reject e s) = latch_reject e (returned s)"
  by (simp_all add: reject_def)

lemma gated_step:
  assumes "gated s"
  shows "gated (step c s ev)"
proof (cases ev)
  case (SyncSettles l r)
  then show ?thesis using assms
    by (cases l; cases r) (auto simp: gated_def split: option.splits)
next
  case (WrittenSettles l r)
  then show ?thesis using assms
    by (cases l; cases r) (auto simp: gated_def split: option.splits)
next
  case (CommittedSettles l r)
  then show ?thesis using assms
    by (cases l; cases r) (auto simp: gated_def split: option.splits)
qed

lemma gated_init: "gated executeBatchedWrite"
  by (simp add: gated_def executeBatchedWrite_def DefaultDatastoreMutation_def)

lemma written_merged_step:
  assumes "gated s" and "written_merged s"
  shows "written_merged (step c s ev)"
proof (cases ev)
  case (SyncSettles l r)
  then show ?thesis using assms
    by (cases l; cases r) (simp_all add: written_merged_def)
next
  case (WrittenSettles l r)
  show ?thesis
  proof (cases l)
    case Remote
    show ?thesis
    proof (cases "written (remoteCoordinator s)")
      case Pending
      then have "localCoordinator s = DefaultDatastoreMutation"
        using assms(1) by (auto simp: gated_def split: option.splits)
      then show ?thesis using Pending Remote WrittenSettles assms(2)
        by (cases r) (simp_all add: written_merged_def batchPromises_def merged_def latch_defs DefaultDatastoreMutation_def)
    qed (use Remote WrittenSettles assms(2) in \<open>simp_all add: written_merged_def\<close>)
  next
    case Local
    show ?thesis
    proof (cases "localSync s")
      case None
      then show ?thesis using Local WrittenSettles assms(2) by (simp add: written_merged_def)
    next
      case (Some p)
      then obtain v where "written (remoteCoordinator s) = Resolved v"
        using assms(1) by (auto simp: gated_def)
      then show ?thesis using Some Local WrittenSettles assms(2)
        by (cases r; cases "written (localCoordinator s)")
           (simp_all add: written_merged_def batchPromises_def merged_def latch_defs)
    qed
  qed
next
  case (CommittedSettles l r)
  then show ?thesis using assms(2)
    by (cases l; cases r)
       (simp_all add: written_merged_def batchPromises_def merged_def latch_defs split: option.splits promise.splits)
qed

lemma written_merged_init: "written_merged executeBatchedWrite"
  by (simp add: written_merged_def executeBatchedWrite_def DefaultDatastoreMutation_def merged_def)

lemma latch_reject_not_Resolved: "p \<noteq> Resolved v \<Longrightarrow> latch_reject e p \<noteq> Resolved v"
  by (cases p) (simp_all add: latch_reject_def)

lemma written_policy_step:
  assumes "written_policy s"
  shows "written_policy (step Written s ev)"
proof (cases ev)
  case (SyncSettles l r)
  then show ?thesis using assms
    by (cases l; cases r) (simp_all add: written_policy_def latch_reject_not_Resolved)
next
  case (WrittenSettles l r)
  then show ?thesis using assms
    by (cases l; cases r) (simp_all add: written_policy_def latch_reject_not_Resolved split: option.splits)
next
  case (CommittedSettles l r)
  then show ?thesis using assms
    by (cases l; cases r) (simp_all add: written_policy_def latch_reject_not_Resolved split: option.splits)
qed

lemma committed_merged_step:
  assumes "committed_merged c s"
  shows "committed_merged c (step c s ev)"
proof (cases ev)
  case (SyncSettles l r)
  then show ?thesis using assms
    by (cases l; cases r; cases c; cases "committed (remoteCoordinator s)"; cases "committed (localCoordinator s)")
       (simp_all add: committed_merged_def)
next
  case (WrittenSettles l r)
  then show ?thesis using assms
    by (cases l; cases r; cases c; cases "committed (remoteCoordinator s)"; cases "committed (localCoordinator s)")
       (auto simp: committed_merged_def batchPromises_def merged_def latch_defs split: option.splits)
next
  case (CommittedSettles l r)
  then show ?thesis using assms
    by (cases l; cases r; cases c; cases "committed (remoteCoordinator s)"; cases "committed (localCoordinator s)")
       (auto simp: committed_merged_def batchPromises_def merged_def latch_defs split: option.splits)
qed

lemma committed_merged_init: "committed_merged c executeBatchedWrite"
  by (cases c) (simp_all add: committed_merged_def executeBatchedWrite_def DefaultDatastoreMutation_def merged_def)

lemma written_policy_init: "written_policy executeBatchedWrite"
  by (simp add: written_policy_def executeBatchedWrite_def DefaultDatastoreMutation_def)

lemma run_snoc: "run c (evs @ [ev]) = step c (run c evs) ev"
  by (simp add: run_def)

lemma gated_run: "gated (run c evs)"
  by (induction evs rule: rev_induct) (simp_all add: run_snoc gated_step, simp add: run_def gated_init)

lemma written_merged_run: "written_merged (run c evs)"
  by (induction evs rule: rev_induct)
     (simp_all add: run_snoc written_merged_step gated_run, simp add: run_def written_merged_init)

lemma committed_merged_run: "committed_merged c (run c evs)"
  by (induction evs rule: rev_induct)
     (simp_all add: run_snoc committed_merged_step, simp add: run_def committed_merged_init)

lemma written_policy_run: "written_policy (run Written evs)"
  by (induction evs rule: rev_induct)
     (simp_all add: run_snoc written_policy_step, simp add: run_def written_policy_init)

lemma batchPromises_settled: "t \<noteq> Pending \<Longrightarrow> batchPromises p0 p1 t = t"
  by (cases t; cases "Promise_all p0 p1") (simp_all add: batchPromises_def latch_defs)

lemma written_target_settled:
  assumes "written (datastoreMutation s) \<noteq> Pending"
  shows "written (datastoreMutation (step c s ev)) = written (datastoreMutation s)"
proof (cases ev)
  case (SyncSettles l r)
  then show ?thesis by (cases l; cases r) (simp_all add: reject_def)
next
  case (WrittenSettles l r)
  then show ?thesis using assms
    by (cases l; cases r) (simp_all add: batchPromises_settled split: option.splits)
next
  case (CommittedSettles l r)
  then show ?thesis using assms
    by (cases l; cases r) (simp_all add: batchPromises_settled split: option.splits)
qed

lemma latch_reject_Rejected [simp]: "latch_reject e (Rejected d) = Rejected d"
  and latch_resolve_Rejected [simp]: "latch_resolve v (Rejected d) = Rejected d"
  by (simp_all add: latch_defs)

lemma returned_rejected_step:
  assumes "returned s = Rejected d"
  shows "returned (step c s ev) = Rejected d"
proof (cases ev)
  case (SyncSettles l r)
  then show ?thesis using assms by (cases l; cases r) simp_all
next
  case (WrittenSettles l r)
  then show ?thesis using assms
    by (cases l; cases r; cases c) (simp_all add: mr_returned_Committed split: option.splits promise.splits)
next
  case (CommittedSettles l r)
  then show ?thesis using assms
    by (cases l; cases r; cases c) (simp_all add: mr_returned_Committed split: option.splits promise.splits)
qed

lemma returned_rejected_foldl:
  "returned s = Rejected d \<Longrightarrow> returned (foldl (step c) s evs) = Rejected d"
  by (induction evs arbitrary: s) (simp_all add: returned_rejected_step)

lemma remote_written_unresolved_step:
  assumes "\<forall>v. written (remoteCoordinator s) \<noteq> Resolved v" and "\<not> resolves_remote_written ev"
  shows "\<forall>v. written (remoteCoordinator (step c s ev)) \<noteq> Resolved v"
proof (cases ev)
  case (SyncSettles l r)
  then show ?thesis using assms by (cases l; cases r) simp_all
next
  case (WrittenSettles l r)
  then show ?thesis using assms
    by (cases l; cases r) (simp_all split: option.splits)
next
  case (CommittedSettles l r)
  then show ?thesis using assms
    by (cases l; cases r) (simp_all split: option.splits)
qed

lemma remote_written_unresolved_foldl:
  "\<forall>v. written (remoteCoordinator s) \<noteq> Resolved v \<Longrightarrow> \<forall>ev\<in>set evs. \<not> resolves_remote_written ev \<Longrightarrow>
   \<forall>v. written (remoteCoordinator (foldl (step c) s evs)) \<noteq> Resolved v"
proof (induction evs arbitrary: s)
  case Nil
  then show ?case by simp
next
  case (Cons ev evs)
  have "\<forall>v. written (remoteCoordinator (step c s ev)) \<noteq> Resolved v"
    using Cons.prems by (intro remote_written_unresolved_step) simp_all
  then show ?case using Cons by simp
qed

lemma remote_written_rejected_step:
  assumes "written (remoteCoordinator s) = Rejected e"
  shows "written (remoteCoordinator (step c s ev)) = Rejected e"
proof (cases ev)
  case (SyncSettles l r)
  then show ?thesis using assms by (cases l; cases r) simp_all
next
  case (WrittenSettles l r)
  then show ?thesis using assms
    by (cases l; cases r) (simp_all split: option.splits)
next
  case (CommittedSettles l r)
  then show ?thesis using assms
    by (cases l; cases r) (simp_all split: option.splits)
qed

lemma remote_written_rejected_foldl:
  "written (remoteCoordinator s) = Rejected e \<Longrightarrow> written (remoteCoordinator (foldl (step c) s evs)) = Rejected e"
  by (induction evs arbitrary: s) (simp_all add: remote_written_rejected_step)

lemma returned_resolved_step:
  assumes "returned s = Resolved () \<longrightarrow> (\<exists>v. committed (datastoreMutation s) = Resolved v)"
  shows "returned (step c s ev) = Resolved () \<longrightarrow> (\<exists>v. committed (datastoreMutation (step c s ev)) = Resolved v)"
proof (cases ev)
  case (SyncSettles l r)
  then show ?thesis using assms
    by (cases l; cases r; cases "returned s") (simp_all add: latch_defs)
next
  case (WrittenSettles l r)
  then show ?thesis using assms
    by (cases l; cases r; cases c; cases "returned s")
       (auto simp: mr_returned_Committed batchPromises_def latch_defs split: option.splits promise.splits)
next
  case (CommittedSettles l r)
  then show ?thesis using assms
    by (cases l; cases r; cases c; cases "returned s")
       (auto simp: mr_returned_Committed batchPromises_def latch_defs split: option.splits promise.splits)
qed

lemma returned_resolved_run:
  "returned (run c evs) = Resolved () \<longrightarrow> (\<exists>v. committed (datastoreMutation (run c evs)) = Resolved v)"
proof (induction evs rule: rev_induct)
  case Nil
  then show ?case by (simp add: run_def executeBatchedWrite_def)
next
  case (snoc ev evs)
  then show ?case unfolding run_snoc by (rule returned_resolved_step)
qed

lemma returned_needs_local:
  assumes "localSync (run c evs) = None"
  shows "returned (run c evs) \<noteq> Resolved ()"
proof
  assume "returned (run c evs) = Resolved ()"
  then obtain v where v: "committed (datastoreMutation (run c evs)) = Resolved v"
    using returned_resolved_run [of c evs] by blast
  have "localCoordinator (run c evs) = DefaultDatastoreMutation"
    using gated_run [of c evs] assms by (simp add: gated_def)
  then have "committed (localCoordinator (run c evs)) = Pending"
    by (simp add: DefaultDatastoreMutation_def)
  then show False using committed_merged_run [of c evs] v
    by (cases c; cases "committed (remoteCoordinator (run c evs))") (simp_all add: committed_merged_def merged_def)
qed

lemma returned_resolved_reached:
  assumes "returned (run c evs) = Resolved ()"
  shows "reached c (datastoreMutation (run c evs))"
proof -
  obtain v where "committed (datastoreMutation (run c evs)) = Resolved v"
    using returned_resolved_run [of c evs] assms by blast
  then show ?thesis using committed_merged_run [of c evs]
    by (cases c) (simp_all add: reached_def committed_merged_def)
qed

section \<open>Properties of write and delete\<close>

lemma on_written_execution [simp]: "execution (on_written cb before s) = execution s"
  by (simp add: on_written_def split: promise.splits sum.splits)

lemma mutation_step_execution [simp]: "execution (mutation_step c cb s ev) = step c (execution s) ev"
  by (simp add: mutation_step_def)

lemma foldl_mutation_step_execution:
  "execution (foldl (mutation_step c cb) s evs) = foldl (step c) (execution s) evs"
  by (induction evs arbitrary: s) simp_all

lemma write_run_execution [simp]: "execution (write_run c cb idx evs) = run c evs"
  by (simp add: write_run_def run_def foldl_mutation_step_execution mutation_call_def)

lemma delete_run_execution [simp]: "execution (delete_run c rm fp idx evs) = run c evs"
  by (simp add: delete_run_def run_def foldl_mutation_step_execution mutation_call_def)

lemma write_run_snoc: "write_run c cb idx (evs @ [ev]) = mutation_step c cb (write_run c cb idx evs) ev"
  by (simp add: write_run_def)

lemma delete_run_snoc: "delete_run c rm fp idx (evs @ [ev]) = mutation_step c (rm fp) (delete_run c rm fp idx evs) ev"
  by (simp add: delete_run_def)

lemma run_append: "run c (pre @ ev # post) = foldl (step c) (step c (run c pre) ev) post"
  by (simp add: run_def)

lemma index_settled_step:
  assumes "index_settled cb idx s"
  shows "index_settled cb idx (mutation_step c cb s ev)"
proof (cases "written (datastoreMutation (execution s)) = Pending")
  case True
  then show ?thesis using assms
    by (cases "written (datastoreMutation (step c (execution s) ev))"; cases "cb idx")
       (simp_all add: index_settled_def mutation_step_def on_written_def)
next
  case False
  then have "written (datastoreMutation (step c (execution s) ev)) = written (datastoreMutation (execution s))"
    by (rule written_target_settled)
  then show ?thesis using assms False
    by (cases "written (datastoreMutation (execution s))"; cases "cb idx")
       (simp_all add: index_settled_def mutation_step_def on_written_def)
qed

lemma index_settled_foldl:
  "index_settled cb idx s \<Longrightarrow> index_settled cb idx (foldl (mutation_step c cb) s evs)"
  by (induction evs arbitrary: s) (simp_all add: index_settled_step)

lemma index_settled_init: "index_settled cb idx (mutation_call idx)"
  by (simp add: index_settled_def mutation_call_def executeBatchedWrite_def DefaultDatastoreMutation_def)

lemma index_settled_delete_run: "index_settled (rm fp) idx (delete_run c rm fp idx evs)"
  unfolding delete_run_def by (rule index_settled_foldl [OF index_settled_init])

lemma index_settled_write_run: "index_settled cb idx (write_run c cb idx evs)"
  unfolding write_run_def by (rule index_settled_foldl [OF index_settled_init])

lemmas eval_defs = run_def write_run_def delete_run_def mutation_call_def mutation_step_def on_written_def
  executeBatchedWrite_def DefaultDatastoreMutation_def batchPromises_def latch_defs
  write_result_def delete_result_def DocMetaComparisonIndex_remove_def

section \<open>The claims about executeBatchedWrite\<close>

text \<open>
  Claim C3 says that the promise returned by \<open>executeBatchedWrite\<close> resolves whenever the
  caller's handle reaches the configured consistency level, the written latch under the
  written policy. Under the written policy the code registers no callback that resolves
  the returned promise: in the execution below both legs resolve their written latches and
  their operations complete, the written latch of the caller's handle resolves, and the
  returned promise is still pending.
\<close>

theorem executeBatchedWrite_written_never_returns:
  "written (datastoreMutation (run Written
      [WrittenSettles Remote (Inr True), SyncSettles Remote (Inr ()),
       WrittenSettles Local (Inr True), SyncSettles Local (Inr ())])) = Resolved True \<and>
   returned (run Written
      [WrittenSettles Remote (Inr True), SyncSettles Remote (Inr ()),
       WrittenSettles Local (Inr True), SyncSettles Local (Inr ())]) = Pending"
  by (simp add: run_def executeBatchedWrite_def DefaultDatastoreMutation_def batchPromises_def latch_defs)

text \<open>
  Claim C4: in every execution of \<open>executeBatchedWrite\<close>, \<open>localSync\<close> has been started
  exactly when the written latch of the remote coordinator has resolved, so never before;
  and in an execution in which that latch is never resolved \<open>localSync\<close> is never started.
\<close>

theorem localSync_after_remote_written:
  "(localSync (run c evs) \<noteq> None \<longleftrightarrow> (\<exists>v. written (remoteCoordinator (run c evs)) = Resolved v)) \<and>
   ((\<forall>ev\<in>set evs. \<not> resolves_remote_written ev) \<longrightarrow> localSync (run c evs) = None)"
proof
  show iff: "localSync (run c evs) \<noteq> None \<longleftrightarrow> (\<exists>v. written (remoteCoordinator (run c evs)) = Resolved v)"
    using gated_run [of c evs] by (auto simp: gated_def split: option.splits)
  show "(\<forall>ev\<in>set evs. \<not> resolves_remote_written ev) \<longrightarrow> localSync (run c evs) = None"
  proof
    assume "\<forall>ev\<in>set evs. \<not> resolves_remote_written ev"
    then have "\<forall>v. written (remoteCoordinator (foldl (step c) executeBatchedWrite evs)) \<noteq> Resolved v"
      by (intro remote_written_unresolved_foldl) (simp_all add: executeBatchedWrite_def DefaultDatastoreMutation_def)
    then show "localSync (run c evs) = None" using iff by (simp add: run_def)
  qed
qed

theorem localSync_after_remote_written_witness:
  "\<not> resolves_remote_written (SyncSettles Remote (Inr ()) :: bool store_event) \<and>
   \<not> resolves_remote_written (WrittenSettles Local (Inr True)) \<and>
   \<not> resolves_remote_written (CommittedSettles Remote (Inr True)) \<and>
   localSync (run Written [SyncSettles Remote (Inr ()), WrittenSettles Local (Inr True), CommittedSettles Remote (Inr True)]) = None \<and>
   localSync (run Written [WrittenSettles Remote (Inr True)]) \<noteq> None \<and>
   written (remoteCoordinator (run Written [WrittenSettles Remote (Inr True)])) = Resolved True"
  using localSync_after_remote_written [of Written "[SyncSettles Remote (Inr ()), WrittenSettles Local (Inr True), CommittedSettles Remote (Inr True)]"]
    localSync_after_remote_written [of Written "[WrittenSettles Remote (Inr True)]"]
  by (simp add: run_def executeBatchedWrite_def DefaultDatastoreMutation_def)

text \<open>
  Claim C5: in every state of every execution, the written latch of the caller's handle has
  resolved exactly when the written latches of both legs have resolved (so it resolves at
  the later of the two resolutions and never earlier), and it has rejected when the written
  latch of either leg has rejected.
\<close>

theorem written_latches_merged:
  "(written (datastoreMutation (run c evs)) = Resolved v \<longleftrightarrow>
      written (remoteCoordinator (run c evs)) = Resolved v \<and>
      (\<exists>w. written (localCoordinator (run c evs)) = Resolved w)) \<and>
   (written (remoteCoordinator (run c evs)) = Rejected e \<or> written (localCoordinator (run c evs)) = Rejected e
      \<longrightarrow> written (datastoreMutation (run c evs)) = Rejected e)"
proof -
  have m: "written (datastoreMutation (run c evs)) =
      merged (written (remoteCoordinator (run c evs))) (written (localCoordinator (run c evs)))"
    using written_merged_run [of c evs] by (simp add: written_merged_def)
  have g: "written (localCoordinator (run c evs)) \<noteq> Pending \<Longrightarrow> \<exists>v. written (remoteCoordinator (run c evs)) = Resolved v"
    using gated_run [of c evs] by (auto simp: gated_def DefaultDatastoreMutation_def split: option.splits)
  show ?thesis
  proof (cases "written (localCoordinator (run c evs))")
    case Pending
    then show ?thesis using m by (cases "written (remoteCoordinator (run c evs))") (auto simp: merged_def)
  next
    case (Resolved w)
    then show ?thesis using m g by (cases "written (remoteCoordinator (run c evs))") (auto simp: merged_def)
  next
    case (Rejected d)
    then show ?thesis using m g by (cases "written (remoteCoordinator (run c evs))") (auto simp: merged_def)
  qed
qed

theorem written_latches_merged_witness:
  "(written (remoteCoordinator (run Written [WrittenSettles Remote (Inr True), WrittenSettles Local (Inl ''disk full'')])) = Rejected ''disk full'' \<or>
    written (localCoordinator (run Written [WrittenSettles Remote (Inr True), WrittenSettles Local (Inl ''disk full'')])) = Rejected ''disk full'') \<and>
   written (datastoreMutation (run Written [WrittenSettles Remote (Inr True), WrittenSettles Local (Inl ''disk full'')])) = Rejected ''disk full''"
  using written_latches_merged [of Written "[WrittenSettles Remote (Inr True), WrittenSettles Local (Inl ''disk full'')]" True "''disk full''"]
  by (simp add: eval_defs)

text \<open>
  Claim C8: when both legs' written latches have resolved, the written latch of the
  caller's handle has resolved with the value of the remote leg, whatever the value of the
  local leg; under the committed policy the same holds of the committed latches.
\<close>

theorem merged_value_is_remote:
  "(written (remoteCoordinator (run c evs)) = Resolved v \<and> written (localCoordinator (run c evs)) = Resolved w
      \<longrightarrow> written (datastoreMutation (run c evs)) = Resolved v) \<and>
   (c = Committed \<and> committed (remoteCoordinator (run c evs)) = Resolved v' \<and>
    committed (localCoordinator (run c evs)) = Resolved w'
      \<longrightarrow> committed (datastoreMutation (run c evs)) = Resolved v')"
  using written_merged_run [of c evs] committed_merged_run [of c evs]
  by (auto simp: written_merged_def committed_merged_def merged_def)

theorem merged_value_is_remote_witness:
  "written (remoteCoordinator (run Committed
      [WrittenSettles Remote (Inr (1::nat)), WrittenSettles Local (Inr 2),
       CommittedSettles Remote (Inr 3), CommittedSettles Local (Inr 4)])) = Resolved 1 \<and>
   written (localCoordinator (run Committed
      [WrittenSettles Remote (Inr (1::nat)), WrittenSettles Local (Inr 2),
       CommittedSettles Remote (Inr 3), CommittedSettles Local (Inr 4)])) = Resolved 2 \<and>
   written (datastoreMutation (run Committed
      [WrittenSettles Remote (Inr (1::nat)), WrittenSettles Local (Inr 2),
       CommittedSettles Remote (Inr 3), CommittedSettles Local (Inr 4)])) = Resolved 1 \<and>
   committed (remoteCoordinator (run Committed
      [WrittenSettles Remote (Inr (1::nat)), WrittenSettles Local (Inr 2),
       CommittedSettles Remote (Inr 3), CommittedSettles Local (Inr 4)])) = Resolved 3 \<and>
   committed (localCoordinator (run Committed
      [WrittenSettles Remote (Inr (1::nat)), WrittenSettles Local (Inr 2),
       CommittedSettles Remote (Inr 3), CommittedSettles Local (Inr 4)])) = Resolved 4 \<and>
   committed (datastoreMutation (run Committed
      [WrittenSettles Remote (Inr (1::nat)), WrittenSettles Local (Inr 2),
       CommittedSettles Remote (Inr 3), CommittedSettles Local (Inr 4)])) = Resolved 3"
  using merged_value_is_remote [of Committed
      "[WrittenSettles Remote (Inr (1::nat)), WrittenSettles Local (Inr 2),
        CommittedSettles Remote (Inr 3), CommittedSettles Local (Inr 4)]" 1 2 3 4]
  by (simp add: eval_defs)

section \<open>The claims about write and delete\<close>

text \<open>
  Claim C1 says that under the written policy a rejection of the cloud store's write leg
  does not reject what \<open>write\<close> returns to the caller and is only logged. It is false of
  the code: when the promise of the cloud write rejects, the promise that \<open>write\<close>
  returns rejects with that error and nothing is logged; when the written latch of the
  cloud leg rejects, the written latch of the caller's handle and the returned promise
  both reject.
\<close>

theorem write_cloud_failure_counterexample:
  "write_result (write_run Written (\<lambda>index. Inr index) Map.empty
      [SyncSettles Remote (Inl ''cloud write failed'')]) = Rejected ''cloud write failed'' \<and>
   logged (write_run Written (\<lambda>index. Inr index) Map.empty
      [SyncSettles Remote (Inl ''cloud write failed'')]) = [] \<and>
   written (datastoreMutation (execution (write_run Written (\<lambda>index. Inr index) Map.empty
      [WrittenSettles Remote (Inl ''cloud write failed'')]))) = Rejected ''cloud write failed'' \<and>
   write_result (write_run Written (\<lambda>index. Inr index) Map.empty
      [WrittenSettles Remote (Inl ''cloud write failed'')]) = Rejected ''cloud write failed''"
  by (simp add: eval_defs reject_def)

text \<open>
  Claim C1 as amended: under the written policy, when the promise of the cloud store's
  write rejects while it was pending and before the written latch of the caller's handle
  has resolved, the promise returned by \<open>write\<close> is rejected (with that error if it was
  still pending); when the written latch of the cloud leg rejects, the written latch of
  the caller's handle rejects with the same error, the returned promise is rejected, the
  rejection is logged, and the local write has not been started.
\<close>

theorem write_cloud_failure_rejects:
  "(remoteSync (execution (write_run Written upd idx evs)) = Pending \<and>
    (\<forall>v. written (datastoreMutation (execution (write_run Written upd idx evs))) \<noteq> Resolved v) \<longrightarrow>
      (\<exists>d. write_result (write_run Written upd idx (evs @ [SyncSettles Remote (Inl e)])) = Rejected d) \<and>
      (write_result (write_run Written upd idx evs) = Pending \<longrightarrow>
         write_result (write_run Written upd idx (evs @ [SyncSettles Remote (Inl e)])) = Rejected e)) \<and>
   (written (remoteCoordinator (execution (write_run Written upd idx evs))) = Pending \<longrightarrow>
      written (datastoreMutation (execution (write_run Written upd idx (evs @ [WrittenSettles Remote (Inl e)])))) = Rejected e \<and>
      (\<exists>d. write_result (write_run Written upd idx (evs @ [WrittenSettles Remote (Inl e)])) = Rejected d) \<and>
      logged (write_run Written upd idx (evs @ [WrittenSettles Remote (Inl e)])) =
        [LogError ''Could not handle delete: '' e] \<and>
      localSync (execution (write_run Written upd idx (evs @ [WrittenSettles Remote (Inl e)]))) = None)"
proof -
  let ?s = "run Written evs"
  have A: "(\<exists>d. returned (step Written ?s (SyncSettles Remote (Inl e))) = Rejected d) \<and>
      (returned ?s = Pending \<longrightarrow> returned (step Written ?s (SyncSettles Remote (Inl e))) = Rejected e)"
    if p: "remoteSync ?s = Pending" and u: "\<forall>v. written (datastoreMutation ?s) \<noteq> Resolved v"
  proof -
    have "\<not> reached Written (datastoreMutation ?s)"
      using u by (cases "written (datastoreMutation ?s)") (auto simp: reached_def)
    then have "returned ?s \<noteq> Resolved ()"
      using returned_resolved_reached [of Written evs] by blast
    then show ?thesis using p by (cases "returned ?s") (simp_all add: latch_defs)
  qed
  have B: "written (datastoreMutation (step Written ?s (WrittenSettles Remote (Inl e)))) = Rejected e \<and>
      (\<exists>d. returned (step Written ?s (WrittenSettles Remote (Inl e))) = Rejected d) \<and>
      logged (write_run Written upd idx (evs @ [WrittenSettles Remote (Inl e)])) =
        [LogError ''Could not handle delete: '' e] \<and>
      localSync (step Written ?s (WrittenSettles Remote (Inl e))) = None"
    if p: "written (remoteCoordinator ?s) = Pending"
  proof -
    have ls: "localSync ?s = None" and lc: "localCoordinator ?s = DefaultDatastoreMutation"
      using gated_run [of Written evs] p by (auto simp: gated_def split: option.splits)
    have nr: "returned ?s \<noteq> Resolved ()"
      using ls by (rule returned_needs_local)
    have tw: "written (datastoreMutation ?s) = Pending"
      using written_merged_run [of Written evs] p lc
      by (simp add: written_merged_def merged_def DefaultDatastoreMutation_def)
    have tw': "written (datastoreMutation (step Written ?s (WrittenSettles Remote (Inl e)))) = Rejected e"
      using p lc tw by (simp add: batchPromises_def DefaultDatastoreMutation_def latch_defs)
    have "index_settled upd idx (write_run Written upd idx (evs @ [WrittenSettles Remote (Inl e)]))"
      by (rule index_settled_write_run)
    then have lg: "logged (write_run Written upd idx (evs @ [WrittenSettles Remote (Inl e)])) =
        [LogError ''Could not handle delete: '' e]"
      using tw' by (simp add: index_settled_def write_run_snoc)
    have "\<exists>d. returned (step Written ?s (WrittenSettles Remote (Inl e))) = Rejected d"
      using nr p by (cases "returned ?s") (simp_all add: latch_defs)
    then show ?thesis using tw' lg ls p by simp
  qed
  show ?thesis using A B by (simp add: write_result_def write_run_snoc)
qed

theorem write_cloud_failure_rejects_witness:
  "remoteSync (execution (write_run Written (\<lambda>index. Inr index) Map.empty [CommittedSettles Remote (Inr True)])) = Pending \<and>
   written (datastoreMutation (execution (write_run Written (\<lambda>index. Inr index) Map.empty
      [CommittedSettles Remote (Inr True)]))) = Pending \<and>
   write_result (write_run Written (\<lambda>index. Inr index) Map.empty [CommittedSettles Remote (Inr True)]) = Pending \<and>
   write_result (write_run Written (\<lambda>index. Inr index) Map.empty
      ([CommittedSettles Remote (Inr True)] @ [SyncSettles Remote (Inl ''offline'')])) = Rejected ''offline'' \<and>
   written (remoteCoordinator (execution (write_run Written (\<lambda>index. Inr index) Map.empty [CommittedSettles Remote (Inr True)]))) = Pending \<and>
   written (datastoreMutation (execution (write_run Written (\<lambda>index. Inr index) Map.empty
      ([CommittedSettles Remote (Inr True)] @ [WrittenSettles Remote (Inl ''offline'')])))) = Rejected ''offline'' \<and>
   logged (write_run Written (\<lambda>index. Inr index) Map.empty
      ([CommittedSettles Remote (Inr True)] @ [WrittenSettles Remote (Inl ''offline'')])) =
        [LogError ''Could not handle delete: '' ''offline'']"
  using write_cloud_failure_rejects [of "\<lambda>index. Inr index" Map.empty "[CommittedSettles Remote (Inr True)]" "''offline''"]
  by (simp add: eval_defs)

text \<open>
  Claim C2 says that when the cloud store's delete leg rejects before its written latch
  resolves, the local delete is never started and the delete operation rejects. The
  operation does reject, but the local delete is gated on the written latch of the cloud
  leg alone: in the execution below the promise of the cloud delete rejects while that
  latch is unsettled, \<open>delete\<close> rejects, the cloud store then resolves the latch, and the
  local delete is started.
\<close>

theorem delete_cloud_failure_counterexample:
  "delete_result (delete_run Written DocMetaComparisonIndex_remove ''doc'' Map.empty
      [SyncSettles Remote (Inl ''cloud delete failed'')]) = Rejected ''cloud delete failed'' \<and>
   written (remoteCoordinator (execution (delete_run Written DocMetaComparisonIndex_remove ''doc'' Map.empty
      [SyncSettles Remote (Inl ''cloud delete failed'')]))) = Pending \<and>
   localSync (execution (delete_run Written DocMetaComparisonIndex_remove ''doc'' Map.empty
      [SyncSettles Remote (Inl ''cloud delete failed''), WrittenSettles Remote (Inr True)])) = Some Pending"
  by (simp add: eval_defs reject_def)

text \<open>
  Claim C2 as amended: when the cloud store's delete leg rejects while its written latch
  has not resolved, the delete operation is rejected, and the local delete has not been
  started; it is never started provided the written latch of the cloud leg is not resolved
  afterwards, which is certain when the rejection is that of the written latch itself.
\<close>

theorem delete_cloud_failure_rejects:
  assumes "\<forall>v. written (remoteCoordinator (execution (delete_run c rm fp idx pre))) \<noteq> Resolved v"
    and "rejection = SyncSettles Remote (Inl e) \<and>
           remoteSync (execution (delete_run c rm fp idx pre)) = Pending \<and>
           list_all (\<lambda>ev. \<not> resolves_remote_written ev) post
         \<or> rejection = WrittenSettles Remote (Inl e) \<and>
           written (remoteCoordinator (execution (delete_run c rm fp idx pre))) = Pending"
  shows "localSync (execution (delete_run c rm fp idx (pre @ rejection # post))) = None \<and>
         (\<exists>d. delete_result (delete_run c rm fp idx (pre @ rejection # post)) = Rejected d)"
proof -
  let ?s = "run c pre"
  let ?s' = "step c ?s rejection"
  have unres: "\<forall>v. written (remoteCoordinator ?s) \<noteq> Resolved v"
    using assms(1) by simp
  have ls: "localSync ?s = None"
    using gated_run [of c pre] unres by (auto simp: gated_def split: option.splits)
  have nr: "returned ?s \<noteq> Resolved ()"
    using ls by (rule returned_needs_local)
  have rej: "\<exists>d. returned ?s' = Rejected d"
  proof -
    from assms(2) show ?thesis
    proof
      assume "rejection = SyncSettles Remote (Inl e) \<and> remoteSync (execution (delete_run c rm fp idx pre)) = Pending \<and>
           list_all (\<lambda>ev. \<not> resolves_remote_written ev) post"
      then show ?thesis using nr by (cases "returned ?s") (simp_all add: latch_defs)
    next
      assume "rejection = WrittenSettles Remote (Inl e) \<and>
           written (remoteCoordinator (execution (delete_run c rm fp idx pre))) = Pending"
      then show ?thesis using nr
        by (cases "returned ?s"; cases c) (simp_all add: latch_defs mr_returned_Committed split: promise.splits)
    qed
  qed
  then obtain d where "returned ?s' = Rejected d" ..
  then have "returned (foldl (step c) ?s' post) = Rejected d"
    by (rule returned_rejected_foldl)
  then have 1: "delete_result (delete_run c rm fp idx (pre @ rejection # post)) = Rejected d"
    by (simp add: delete_result_def run_append)
  have "\<forall>v. written (remoteCoordinator (foldl (step c) ?s' post)) \<noteq> Resolved v"
  proof -
    from assms(2) show ?thesis
    proof
      assume a: "rejection = SyncSettles Remote (Inl e) \<and> remoteSync (execution (delete_run c rm fp idx pre)) = Pending \<and>
           list_all (\<lambda>ev. \<not> resolves_remote_written ev) post"
      then have "\<forall>v. written (remoteCoordinator ?s') \<noteq> Resolved v"
        using unres by simp
      moreover have "\<forall>ev\<in>set post. \<not> resolves_remote_written ev"
        using a by (simp add: list_all_iff)
      ultimately show ?thesis by (rule remote_written_unresolved_foldl)
    next
      assume a: "rejection = WrittenSettles Remote (Inl e) \<and>
           written (remoteCoordinator (execution (delete_run c rm fp idx pre))) = Pending"
      then have "written (remoteCoordinator ?s') = Rejected e" by simp
      then have "written (remoteCoordinator (foldl (step c) ?s' post)) = Rejected e"
        by (rule remote_written_rejected_foldl)
      then show ?thesis by simp
    qed
  qed
  then have "localSync (run c (pre @ rejection # post)) = None"
    using gated_run [of c "pre @ rejection # post"]
    by (auto simp: gated_def run_append split: option.splits)
  then show ?thesis using 1 by auto
qed

theorem delete_cloud_failure_rejects_witness:
  "written (remoteCoordinator (execution (delete_run Written DocMetaComparisonIndex_remove ''doc'' [''doc'' \<mapsto> 7]
      [CommittedSettles Remote (Inr True)]))) = Pending \<and>
   remoteSync (execution (delete_run Written DocMetaComparisonIndex_remove ''doc'' [''doc'' \<mapsto> 7]
      [CommittedSettles Remote (Inr True)])) = Pending \<and>
   list_all (\<lambda>ev. \<not> resolves_remote_written ev) [WrittenSettles Remote (Inl ''late''), WrittenSettles Local (Inr True)] \<and>
   localSync (execution (delete_run Written DocMetaComparisonIndex_remove ''doc'' [''doc'' \<mapsto> 7]
      ([CommittedSettles Remote (Inr True)] @ SyncSettles Remote (Inl ''cloud delete failed'') #
       [WrittenSettles Remote (Inl ''late''), WrittenSettles Local (Inr True)]))) = None \<and>
   delete_result (delete_run Written DocMetaComparisonIndex_remove ''doc'' [''doc'' \<mapsto> 7]
      ([CommittedSettles Remote (Inr True)] @ SyncSettles Remote (Inl ''cloud delete failed'') #
       [WrittenSettles Remote (Inl ''late''), WrittenSettles Local (Inr True)])) = Rejected ''cloud delete failed'' \<and>
   localSync (execution (delete_run Written DocMetaComparisonIndex_remove ''doc'' [''doc'' \<mapsto> 7]
      ([CommittedSettles Remote (Inr True)] @ WrittenSettles Remote (Inl ''cloud delete failed'') #
       [WrittenSettles Remote (Inr True)]))) = None"
  using delete_cloud_failure_rejects [of Written DocMetaComparisonIndex_remove "''doc''" "[''doc'' \<mapsto> 7]"
      "[CommittedSettles Remote (Inr True)]" "SyncSettles Remote (Inl ''cloud delete failed'')" "''cloud delete failed''"
      "[WrittenSettles Remote (Inl ''late''), WrittenSettles Local (Inr True)]"]
    delete_cloud_failure_rejects [of Written DocMetaComparisonIndex_remove "''doc''" "[''doc'' \<mapsto> 7]"
      "[CommittedSettles Remote (Inr True)]" "WrittenSettles Remote (Inl ''cloud delete failed'')" "''cloud delete failed''"
      "[WrittenSettles Remote (Inr True)]"]
  by (simp add: eval_defs reject_def)

text \<open>
  Claim C10: in every state of a call of \<open>delete\<close> in which the written latch of the
  caller's handle has resolved, the comparison index has no entry for the fingerprint
  (with \<open>remove\<close> as the spec describes it); and when \<open>remove\<close> throws, the error is
  logged and the outcome of \<open>delete\<close> is the one it has when \<open>remove\<close> succeeds.
\<close>

theorem delete_index_removed:
  assumes "written (datastoreMutation (execution (delete_run c rm fp idx evs))) = Resolved v"
  shows "(rm = DocMetaComparisonIndex_remove \<longrightarrow> docMetaComparisonIndex (delete_run c rm fp idx evs) fp = None) \<and>
         (\<forall>e. rm fp idx = Inl e \<longrightarrow>
            logged (delete_run c rm fp idx evs) = [LogError ''Could not handle delete: '' e] \<and>
            delete_result (delete_run c rm fp idx evs) =
              delete_result (delete_run c DocMetaComparisonIndex_remove fp idx evs))"
proof -
  have "index_settled (rm fp) idx (delete_run c rm fp idx evs)"
    by (rule index_settled_delete_run)
  then have "case rm fp idx of
      Inr index \<Rightarrow> docMetaComparisonIndex (delete_run c rm fp idx evs) = index \<and> logged (delete_run c rm fp idx evs) = []
    | Inl e \<Rightarrow> docMetaComparisonIndex (delete_run c rm fp idx evs) = idx \<and>
        logged (delete_run c rm fp idx evs) = [LogError ''Could not handle delete: '' e]"
    using assms by (simp add: index_settled_def)
  then show ?thesis
    by (auto simp: DocMetaComparisonIndex_remove_def delete_result_def)
qed

theorem delete_index_removed_witness:
  "written (datastoreMutation (execution (delete_run Written DocMetaComparisonIndex_remove ''doc'' [''doc'' \<mapsto> 7]
      [WrittenSettles Remote (Inr True), WrittenSettles Local (Inr True)]))) = Resolved True \<and>
   docMetaComparisonIndex (delete_run Written DocMetaComparisonIndex_remove ''doc'' [''doc'' \<mapsto> 7]
      [WrittenSettles Remote (Inr True), WrittenSettles Local (Inr True)]) ''doc'' = None \<and>
   written (datastoreMutation (execution (delete_run Written (\<lambda>fp index. Inl ''index broken'') ''doc'' [''doc'' \<mapsto> 7]
      [WrittenSettles Remote (Inr True), WrittenSettles Local (Inr True)]))) = Resolved True \<and>
   logged (delete_run Written (\<lambda>fp index. Inl ''index broken'') ''doc'' [''doc'' \<mapsto> 7]
      [WrittenSettles Remote (Inr True), WrittenSettles Local (Inr True)]) =
     [LogError ''Could not handle delete: '' ''index broken''] \<and>
   delete_result (delete_run Written (\<lambda>fp index. Inl ''index broken'') ''doc'' [''doc'' \<mapsto> 7]
      [WrittenSettles Remote (Inr True), WrittenSettles Local (Inr True)]) = Pending"
  using delete_index_removed [of Written DocMetaComparisonIndex_remove "''doc''" "[''doc'' \<mapsto> 7]"
      "[WrittenSettles Remote (Inr True), WrittenSettles Local (Inr True)]" True]
    delete_index_removed [of Written "\<lambda>fp index. Inl ''index broken''" "''doc''" "[''doc'' \<mapsto> 7]"
      "[WrittenSettles Remote (Inr True), WrittenSettles Local (Inr True)]" True]
  by (simp add: eval_defs)

section \<open>Properties of a snapshot session\<close>

lemma set_stage_fields [simp]:
  "effects (set_stage n st s) = effects s"
  "length (deliveries (set_stage n st s)) = length (deliveries s)"
  "subscriptions (set_stage n st s) = subscriptions s"
  "point (set_stage n st s) = point s"
  "initialSyncCompleted (set_stage n st s) = initialSyncCompleted s"
  "isPrimarySnapshot (set_stage n st s) = isPrimarySnapshot s"
  "snapshotID (set_stage n st s) = snapshotID s"
  "comparisonIndex (set_stage n st s) = comparisonIndex s"
  "localInitialSnapshotLatch (set_stage n st s) = localInitialSnapshotLatch s"
  "cloudInitialSnapshotLatch (set_stage n st s) = cloudInitialSnapshotLatch s"
  by (simp_all add: set_stage_def)

lemma set_stage_deliveries: "deliveries (set_stage n st s) = (deliveries s)[n := (deliveries s ! n)\<lparr>stage := st\<rparr>]"
  by (simp add: set_stage_def)

lemma set_event_fields [simp]:
  "effects (set_event n ev s) = effects s"
  "length (deliveries (set_event n ev s)) = length (deliveries s)"
  "subscriptions (set_event n ev s) = subscriptions s"
  "point (set_event n ev s) = point s"
  "initialSyncCompleted (set_event n ev s) = initialSyncCompleted s"
  "isPrimarySnapshot (set_event n ev s) = isPrimarySnapshot s"
  "snapshotID (set_event n ev s) = snapshotID s"
  "comparisonIndex (set_event n ev s) = comparisonIndex s"
  "localInitialSnapshotLatch (set_event n ev s) = localInitialSnapshotLatch s"
  "cloudInitialSnapshotLatch (set_event n ev s) = cloudInitialSnapshotLatch s"
  by (simp_all add: set_event_def)


lemma call_fields [simp]:
  "effects (call x s) = effects s @ [x]"
  "deliveries (call x s) = deliveries s"
  "subscriptions (call x s) = subscriptions s"
  "point (call x s) = point s"
  "initialSyncCompleted (call x s) = initialSyncCompleted s"
  "isPrimarySnapshot (call x s) = isPrimarySnapshot s"
  "snapshotID (call x s) = snapshotID s"
  "comparisonIndex (call x s) = comparisonIndex s"
  "localInitialSnapshotLatch (call x s) = localInitialSnapshotLatch s"
  "cloudInitialSnapshotLatch (call x s) = cloudInitialSnapshotLatch s"
  by (simp_all add: call_def)

lemma set_latch_fields [simp]:
  "effects (set_initialSnapshotLatch datastore l s) = effects s"
  "deliveries (set_initialSnapshotLatch datastore l s) = deliveries s"
  "comparisonIndex (set_initialSnapshotLatch datastore l s) = comparisonIndex s"
  "initialSyncCompleted (set_initialSnapshotLatch datastore l s) = initialSyncCompleted s"
  "isPrimarySnapshot (set_initialSnapshotLatch datastore l s) = isPrimarySnapshot s"
  "subscriptions (set_initialSnapshotLatch datastore l s) = subscriptions s"
  "point (set_initialSnapshotLatch datastore l s) = point s"
  "snapshotID (set_initialSnapshotLatch datastore l s) = snapshotID s"
  by (cases datastore; simp add: set_initialSnapshotLatch_def)+

lemma set_get_latch [simp]:
  "initialSnapshotLatch datastore (set_initialSnapshotLatch datastore l s) = l"
  by (cases datastore) (simp_all add: initialSnapshotLatch_def set_initialSnapshotLatch_def)

lemma latch_set_stage [simp]:
  "initialSnapshotLatch datastore (set_stage n st s) = initialSnapshotLatch datastore s"
  "initialSnapshotLatch datastore (set_event n ev s) = initialSnapshotLatch datastore s"
  "initialSnapshotLatch datastore (call x s) = initialSnapshotLatch datastore s"
  by (cases datastore; simp add: initialSnapshotLatch_def)+

lemma add_delivery_fields [simp]:
  "effects (add_delivery datastore ev st s) = effects s"
  "deliveries (add_delivery datastore ev st s) = deliveries s @ [\<lparr>origin = datastore, event = ev, stage = st\<rparr>]"
  "subscriptions (add_delivery datastore ev st s) = subscriptions s"
  by (simp_all add: add_delivery_def)

lemma handleEvent_finally_fields [simp]:
  "effects (handleEvent_finally thrown n s) = effects s @ [Listener (event (deliveries s ! n))]"
  "deliveries (handleEvent_finally thrown n s) = (deliveries s)[n := (deliveries s ! n)\<lparr>stage := AwaitListener thrown\<rparr>]"
  "subscriptions (handleEvent_finally thrown n s) = subscriptions s"
  by (simp_all add: handleEvent_finally_def set_stage_deliveries)

lemma handleEvent_catch_fields [simp]:
  "effects (handleEvent_catch e n s) =
     effects s @ [Logged ''Unable to handle synchronizing snapshot '' (snapshotID s) e, ErrorListener e]"
  "deliveries (handleEvent_catch e n s) = (deliveries s)[n := (deliveries s ! n)\<lparr>stage := Finished Forwarded\<rparr>]"
  "subscriptions (handleEvent_catch e n s) = subscriptions s"
  by (simp_all add: handleEvent_catch_def set_stage_deliveries)

lemma next_mutation_fields [simp]:
  "effects (next_mutation ms n s) =
     effects s @ (if ms = [] then [DispatchSynchronizationEvent (event (deliveries s ! n)) local,
                                   Listener (event (deliveries s ! n))] else [])"
  "deliveries (next_mutation ms n s) = (deliveries s)[n := (deliveries s ! n)\<lparr>stage := next_stage ms\<rparr>]"
  "subscriptions (next_mutation ms n s) = subscriptions s"
  by (simp_all add: next_mutation_def next_stage_def set_stage_deliveries
      split: list.splits MutationType.splits)

lemma handleEvent_fields:
  "effects (handleEvent n s) =
     effects s @
     (if initialSyncCompleted s \<and> isPrimarySnapshot s \<and> consistency (event (deliveries s ! n)) = Committed
      then (if docMetaMutations (event (deliveries s ! n)) = []
            then [DispatchSynchronizationEvent (event (deliveries s ! n)) local,
                  Listener (event (deliveries s ! n))] else [])
      else [Listener (event (deliveries s ! n))])"
  "deliveries (handleEvent n s) =
     (deliveries s)[n := (deliveries s ! n)\<lparr>stage :=
        (if initialSyncCompleted s \<and> isPrimarySnapshot s \<and> consistency (event (deliveries s ! n)) = Committed
         then next_stage (docMetaMutations (event (deliveries s ! n)))
         else AwaitListener None)\<rparr>]"
  "subscriptions (handleEvent n s) = subscriptions s"
  by (simp_all add: handleEvent_def)


lemma synchronizing_next_stage: "ms \<noteq> [] \<Longrightarrow> synchronizing (next_stage ms)"
  by (simp add: next_stage_def split: list.splits MutationType.splits)












lemmas session_defs = session_run_def snapshot_def deliver_def advance_def resume_def
  handleEvent_def handleEvent_finally_def handleEvent_catch_def next_mutation_def
  set_stage_def set_event_def call_def add_delivery_def
  handleSnapshot_enter_def handleSnapshot_resume_def handleSnapshot_finally_def
  initialSnapshotLatch_def set_initialSnapshotLatch_def InitialSnapshotLatch_def
  createDeduplicatedListener_def newer_def SyncDocMaps_putAll_def
  snapshot_result_def datastore_snapshot_def init_def stop_def call_unsubscribe_def latch_resolve_def

lemma resume_at_subscriptions [simp]: "subscriptions (resume_at dedup n s d st r) = subscriptions s"
proof (cases st)
  case AwaitDeduplicator
  then show ?thesis
    by (cases r) (simp_all add: handleEvent_fields split: prod.splits option.splits)
next
  case (AwaitListener thrown)
  then show ?thesis by (cases r; cases thrown) simp_all
qed (cases r; simp)+

lemma advance_subscriptions: "local \<in> subscriptions s \<Longrightarrow> local \<in> subscriptions (advance s)"
  by (simp add: advance_def split: snapshot_point.splits promise.splits)

lemma deliver_subscriptions [simp]: "subscriptions (deliver datastore ev s) = subscriptions s"
  by (simp add: deliver_def split: prod.splits bool.splits)

lemma session_step_subscriptions:
  "local \<in> subscriptions s \<Longrightarrow> local \<in> subscriptions (session_step dedup s ev)"
  by (cases ev) (simp_all add: advance_subscriptions resume_def)

lemma foldl_session_subscriptions:
  "local \<in> subscriptions s \<Longrightarrow> local \<in> subscriptions (foldl (session_step dedup) s evs)"
  by (induction evs arbitrary: s) (simp_all add: session_step_subscriptions)

lemma session_run_subscriptions: "local \<in> subscriptions (session_run dedup isPrimary id0 idx evs)"
  unfolding session_run_def by (rule foldl_session_subscriptions) (simp add: snapshot_def)

text \<open>
  The initial synchronization can complete between the delivery of an event and the
  moment the deduplicator lets it through: below, the cloud store delivers the terminating
  event of its initial batch before the initial synchronization has completed, the body of
  \<open>snapshot\<close> runs on to set \<open>initialSyncCompleted\<close>, and \<open>handleEvent\<close> then
  synchronizes that event.
\<close>

lemma late_deduplication_synchronizes:
  "initialSyncCompleted (session_run createDeduplicatedListener True 0 Map.empty
     [Deliver local empty_initial_batch, Settle 0 (SyncDocs []), Settle 0 Resolves, Advance,
      Deliver cloud
        \<lparr>batch = Some \<lparr>batch_id = 0, terminated = True\<rparr>, consistency = Committed,
         docMetaMutations = [\<lparr>fingerprint = ''doc'', mutationType = created, docInfoProvider = 1\<rparr>]\<rparr>]) = False \<and>
   effects (session_run createDeduplicatedListener True 0 Map.empty
     [Deliver local empty_initial_batch, Settle 0 (SyncDocs []), Settle 0 Resolves, Advance,
      Deliver cloud
        \<lparr>batch = Some \<lparr>batch_id = 0, terminated = True\<rparr>, consistency = Committed,
         docMetaMutations = [\<lparr>fingerprint = ''doc'', mutationType = created, docInfoProvider = 1\<rparr>]\<rparr>,
      Settle 1 (SyncDocs [SyncDoc ''doc'' 1]), Advance, Advance,
      Settle 1 Resolves, Settle 1 (SyncDocs [SyncDoc ''doc'' 1]), Settle 1 (SyncDocs []), Settle 1 Resolves]) =
     [SynchronizeOrigins, LocalSyncDocMap [''doc''], Transfer cloud_to_local [SyncDoc ''doc'' 1] [],
      DispatchSynchronizationEvent
        \<lparr>batch = Some \<lparr>batch_id = 0, terminated = True\<rparr>, consistency = Committed,
         docMetaMutations = [\<lparr>fingerprint = ''doc'', mutationType = created, docInfoProvider = 1\<rparr>]\<rparr> local,
      Listener
        \<lparr>batch = Some \<lparr>batch_id = 0, terminated = True\<rparr>, consistency = Committed,
         docMetaMutations = [\<lparr>fingerprint = ''doc'', mutationType = created, docInfoProvider = 1\<rparr>]\<rparr>]"
  by (simp add: session_defs)

section \<open>The claims about snapshots\<close>







text \<open>
  Claim C9: when a call of \<open>snapshot\<close> has returned, the unsubscribe function of its
  result is the one of the cloud store's subscription; the local feed is subscribed to,
  and calling the function leaves it so; \<open>stop\<close> calls the unsubscribe function of the
  cloud feed only, so the local feed is still subscribed to after it.
\<close>

theorem snapshot_unsubscribe_is_cloud:
  assumes "snapshot_result (session_run dedup isPrimary id0 idx evs) = Some r"
  shows "unsubscribe r = unsubscribe (datastore_snapshot cloud) \<and>
         local \<in> subscriptions (session_run dedup isPrimary id0 idx evs) \<and>
         (\<forall>d. unsubscribe r = Some d \<longrightarrow>
            local \<in> call_unsubscribe d (subscriptions (session_run dedup isPrimary id0 idx evs))) \<and>
         local \<in> feeds (fst (stop (init (session_run dedup isPrimary id0 idx evs)))) \<and>
         Unsubscribe local \<notin> set (snd (stop (init (session_run dedup isPrimary id0 idx evs))))"
proof -
  let ?s = "session_run dedup isPrimary id0 idx evs"
  have r: "r = \<lparr>unsubscribe = Some cloud\<rparr>"
    using assms by (simp add: snapshot_result_def datastore_snapshot_def split: if_splits)
  have l: "local \<in> subscriptions ?s" by (rule session_run_subscriptions)
  have "stop (init ?s) =
      ((init ?s)\<lparr>feeds := call_unsubscribe cloud (subscriptions ?s)\<rparr>,
       [ShutdownHook, Unsubscribe cloud, StopDatastore cloud, StopDatastore local])"
    using assms r by (simp add: stop_def init_def)
  then show ?thesis using r l
    by (simp add: datastore_snapshot_def call_unsubscribe_def)
qed

theorem snapshot_unsubscribe_is_cloud_witness:
  "snapshot_result (session_run createDeduplicatedListener True 0 Map.empty initial_synchronization)
     = Some \<lparr>unsubscribe = Some cloud\<rparr> \<and>
   subscriptions (session_run createDeduplicatedListener True 0 Map.empty initial_synchronization)
     = {cloud, local} \<and>
   call_unsubscribe cloud
     (subscriptions (session_run createDeduplicatedListener True 0 Map.empty initial_synchronization))
     = {local} \<and>
   snd (stop (init (session_run createDeduplicatedListener True 0 Map.empty initial_synchronization)))
     = [ShutdownHook, Unsubscribe cloud, StopDatastore cloud, StopDatastore local] \<and>
   local \<in> feeds (fst (stop (init (session_run createDeduplicatedListener True 0 Map.empty
      initial_synchronization))))"
  using snapshot_unsubscribe_is_cloud [of createDeduplicatedListener True 0 Map.empty
      initial_synchronization "\<lparr>unsubscribe = Some cloud\<rparr>"]
  by (auto simp: session_defs)

end
